theory Spec2Isabelle
  imports Complex_Main
begin

section \<open>Empire Conquest: the data model\<close>

text \<open>
  The simulation keeps one \<open>GameState\<close> value in a component and replaces it on every
  player action. JavaScript numbers that only ever hold integers (resources, coordinates,
  counters) are modelled as \<open>int\<close> (\<open>nat\<close> for the turn counter, which starts at 1 and is
  only incremented); the seasonal factors and the values of \<open>Math.random()\<close> are
  modelled as exact rationals. Emoji of the source are written as ASCII stand-ins in
  square brackets. The colour themes of a season and the particle effects (a list that
  only \<open>addParticleEffect\<close> and its timers update, in state updates of their own) are
  presentation only and are left out.

  The handlers \<open>placeBuilding\<close> and \<open>nextTurn\<close> read the state in two ways: through the
  \<open>gameState\<close> of the render that created them, and through the argument \<open>prev\<close> of the
  update function they pass to \<open>setGameState\<close>. Each handler runs once per click or drop,
  and the component is rendered again before the next one, so both are the same state; the
  model has one state argument and says at each read which of the two the source uses.
\<close>

datatype Terrain = grass | forest | mountain | water

datatype BuildingType = castle | house | farm | mine | barracks | tower | market

datatype Owner = player_owner | enemy_owner

record Building =
  btype :: BuildingType
  level :: int
  owner :: Owner
  income :: int
  adjacencyBonuses :: "string list"

record Cell =
  cell_x :: int
  cell_y :: int
  isRevealed :: bool
  building :: "Building option"
  terrain :: Terrain
  resources :: int
  adjacencyBonus :: int

record ResourceChange =
  rc_gold :: int
  rc_population :: int
  rc_food :: int
  rc_military :: int

datatype TurnEventType =
  building_built | resource_bonus | population_growth | military_training
  | trade_success | weather_effect | resource_discovery | bandit_attack
  | seasonal_change | achievement_event

datatype Severity = positive | negative | neutral

record TurnEvent =
  ev_type :: TurnEventType
  ev_message :: string
  ev_icon :: string
  ev_severity :: "Severity option"

record Achievement =
  ach_id :: string
  ach_name :: string
  ach_description :: string
  ach_icon :: string
  unlocked :: bool
  progress :: int
  maxProgress :: int
  reward :: "string option"

datatype SeasonName = Spring | Summer | Autumn | Winter

record SeasonEffects =
  goldBonus :: rat
  foodBonus :: rat
  militaryBonus :: rat

record Season =
  season_name :: SeasonName
  season_icon :: string
  effects :: SeasonEffects

record Player =
  p_gold :: int
  p_population :: int
  p_army :: int
  p_food :: int
  p_militaryStrength :: int

datatype TimeOfDay = day | night

datatype GamePhase = placement | battle | victory

datatype VictoryType = territory | resources_victory | buildings

type_synonym Grid = "Cell list list"

record GameState =
  grid :: Grid
  turn :: nat
  timeOfDay :: TimeOfDay
  isTransitioning :: bool
  player :: Player
  selectedCell :: "(int \<times> int) option"
  gamePhase :: GamePhase
  resourceChanges :: ResourceChange
  lastTurnIncome :: ResourceChange
  turnEvents :: "TurnEvent list"
  showTurnSummary :: bool
  showEndTurnConfirm :: bool
  territoryControlPercentage :: int
  currentSeason :: Season
  achievements :: "Achievement list"
  gameWon :: bool
  victoryType :: "VictoryType option"
  showVictoryScreen :: bool
  isLoading :: bool

definition GRID_SIZE :: int where
  "GRID_SIZE = 12"

subsection \<open>The constant tables\<close>

definition SEASONS :: "Season list" where
  "SEASONS =
    [\<lparr>season_name = Spring, season_icon = ''[blossom]'',
      effects = \<lparr>goldBonus = 1/10, foodBonus = 2/10, militaryBonus = 0\<rparr>\<rparr>,
     \<lparr>season_name = Summer, season_icon = ''[sun]'',
      effects = \<lparr>goldBonus = 2/10, foodBonus = 3/10, militaryBonus = 1/10\<rparr>\<rparr>,
     \<lparr>season_name = Autumn, season_icon = ''[leaf]'',
      effects = \<lparr>goldBonus = 3/10, foodBonus = 1/10, militaryBonus = 2/10\<rparr>\<rparr>,
     \<lparr>season_name = Winter, season_icon = ''[snowflake]'',
      effects = \<lparr>goldBonus = 0, foodBonus = - (1/10), militaryBonus = 3/10\<rparr>\<rparr>]"

definition INITIAL_ACHIEVEMENTS :: "Achievement list" where
  "INITIAL_ACHIEVEMENTS =
    [\<lparr>ach_id = ''first_building'', ach_name = ''Foundation'',
      ach_description = ''Build your first structure'', ach_icon = ''[crane]'',
      unlocked = False, progress = 0, maxProgress = 1,
      reward = Some ''Unlock: Market building''\<rparr>,
     \<lparr>ach_id = ''gold_collector'', ach_name = ''Gold Rush'',
      ach_description = ''Accumulate 1000 gold'', ach_icon = ''[moneybag]'',
      unlocked = False, progress = 0, maxProgress = 1000,
      reward = Some ''+10% gold income''\<rparr>,
     \<lparr>ach_id = ''empire_builder'', ach_name = ''Empire Builder'',
      ach_description = ''Control 25% of the territory'', ach_icon = ''[castle]'',
      unlocked = False, progress = 0, maxProgress = 25,
      reward = Some ''Unlock: Advanced buildings''\<rparr>,
     \<lparr>ach_id = ''all_buildings'', ach_name = ''Master Architect'',
      ach_description = ''Build all building types'', ach_icon = ''[temple]'',
      unlocked = False, progress = 0, maxProgress = 7,
      reward = Some ''Victory condition unlocked''\<rparr>,
     \<lparr>ach_id = ''population_boom'', ach_name = ''Population Boom'',
      ach_description = ''Reach 100 population'', ach_icon = ''[people]'',
      unlocked = False, progress = 0, maxProgress = 100,
      reward = Some ''+20% population growth''\<rparr>]"

record Cost =
  c_gold :: int
  c_food :: int
  c_population :: int

text \<open>\<open>BUILDING_COSTS\<close> has no entry for the castle: the lookup gives \<open>undefined\<close>.\<close>

fun BUILDING_COSTS :: "BuildingType \<Rightarrow> Cost option" where
  "BUILDING_COSTS house = Some \<lparr>c_gold = 50, c_food = 5, c_population = 0\<rparr>"
| "BUILDING_COSTS farm = Some \<lparr>c_gold = 75, c_food = 0, c_population = 2\<rparr>"
| "BUILDING_COSTS mine = Some \<lparr>c_gold = 100, c_food = 10, c_population = 3\<rparr>"
| "BUILDING_COSTS barracks = Some \<lparr>c_gold = 150, c_food = 15, c_population = 5\<rparr>"
| "BUILDING_COSTS tower = Some \<lparr>c_gold = 200, c_food = 20, c_population = 3\<rparr>"
| "BUILDING_COSTS market = Some \<lparr>c_gold = 120, c_food = 8, c_population = 4\<rparr>"
| "BUILDING_COSTS castle = None"

record Effects =
  produces :: ResourceChange
  consumes :: ResourceChange

fun BUILDING_EFFECTS :: "BuildingType \<Rightarrow> Effects" where
  "BUILDING_EFFECTS castle =
     \<lparr>produces = \<lparr>rc_gold = 20, rc_population = 2, rc_food = 0, rc_military = 5\<rparr>,
      consumes = \<lparr>rc_gold = 0, rc_population = 0, rc_food = 5, rc_military = 0\<rparr>\<rparr>"
| "BUILDING_EFFECTS house =
     \<lparr>produces = \<lparr>rc_gold = 5, rc_population = 3, rc_food = 0, rc_military = 0\<rparr>,
      consumes = \<lparr>rc_gold = 0, rc_population = 0, rc_food = 2, rc_military = 0\<rparr>\<rparr>"
| "BUILDING_EFFECTS farm =
     \<lparr>produces = \<lparr>rc_gold = 10, rc_population = 0, rc_food = 20, rc_military = 0\<rparr>,
      consumes = \<lparr>rc_gold = 2, rc_population = 1, rc_food = 0, rc_military = 0\<rparr>\<rparr>"
| "BUILDING_EFFECTS mine =
     \<lparr>produces = \<lparr>rc_gold = 30, rc_population = 0, rc_food = 0, rc_military = 0\<rparr>,
      consumes = \<lparr>rc_gold = 0, rc_population = 2, rc_food = 8, rc_military = 0\<rparr>\<rparr>"
| "BUILDING_EFFECTS barracks =
     \<lparr>produces = \<lparr>rc_gold = 0, rc_population = 0, rc_food = 0, rc_military = 8\<rparr>,
      consumes = \<lparr>rc_gold = 10, rc_population = 3, rc_food = 15, rc_military = 0\<rparr>\<rparr>"
| "BUILDING_EFFECTS tower =
     \<lparr>produces = \<lparr>rc_gold = 0, rc_population = 0, rc_food = 0, rc_military = 12\<rparr>,
      consumes = \<lparr>rc_gold = 5, rc_population = 1, rc_food = 8, rc_military = 0\<rparr>\<rparr>"
| "BUILDING_EFFECTS market =
     \<lparr>produces = \<lparr>rc_gold = 25, rc_population = 1, rc_food = 0, rc_military = 0\<rparr>,
      consumes = \<lparr>rc_gold = 0, rc_population = 2, rc_food = 5, rc_military = 0\<rparr>\<rparr>"

record PlacementRule =
  validTerrain :: "Terrain list"
  maxDistance :: int
  minDistance :: int
  rule_description :: string

fun PLACEMENT_RULES :: "BuildingType \<Rightarrow> PlacementRule" where
  "PLACEMENT_RULES castle =
     \<lparr>validTerrain = [grass, mountain], maxDistance = 10, minDistance = 0,
      rule_description = ''Your main stronghold''\<rparr>"
| "PLACEMENT_RULES house =
     \<lparr>validTerrain = [grass, forest], maxDistance = 3, minDistance = 0,
      rule_description = ''Must be near castle or other houses''\<rparr>"
| "PLACEMENT_RULES farm =
     \<lparr>validTerrain = [grass], maxDistance = 5, minDistance = 1,
      rule_description = ''Requires grass terrain, not too close to other buildings''\<rparr>"
| "PLACEMENT_RULES mine =
     \<lparr>validTerrain = [mountain, forest], maxDistance = 10, minDistance = 0,
      rule_description = ''Requires mountain or forest terrain''\<rparr>"
| "PLACEMENT_RULES barracks =
     \<lparr>validTerrain = [grass, mountain], maxDistance = 4, minDistance = 2,
      rule_description = ''Needs strategic positioning away from houses''\<rparr>"
| "PLACEMENT_RULES tower =
     \<lparr>validTerrain = [grass, mountain], maxDistance = 6, minDistance = 1,
      rule_description = ''Defensive positioning on elevated terrain''\<rparr>"
| "PLACEMENT_RULES market =
     \<lparr>validTerrain = [grass], maxDistance = 3, minDistance = 1,
      rule_description = ''Needs access roads, near houses but not farms''\<rparr>"

text \<open>
  \<open>ADJACENCY_BONUSES[t]\<close> is an object with an entry for some neighbour types; reading a
  type without an entry gives \<open>undefined\<close>.
\<close>

fun ADJACENCY_BONUSES :: "BuildingType \<Rightarrow> (BuildingType \<times> int) list" where
  "ADJACENCY_BONUSES castle = [(house, 10), (barracks, 15), (tower, 20)]"
| "ADJACENCY_BONUSES house = [(house, 5), (market, 10), (castle, 15)]"
| "ADJACENCY_BONUSES farm = [(house, 5), (market, 15), (farm, - 5)]"
| "ADJACENCY_BONUSES mine = [(market, 10), (barracks, 5)]"
| "ADJACENCY_BONUSES barracks = [(tower, 15), (castle, 10), (barracks, 10)]"
| "ADJACENCY_BONUSES tower = [(barracks, 10), (tower, 5), (castle, 20)]"
| "ADJACENCY_BONUSES market = [(house, 10), (farm, 15), (market, - 10)]"

subsection \<open>Turn resources\<close>

definition getBaseIncome :: "BuildingType \<Rightarrow> int" where
  "getBaseIncome buildingType = rc_gold (produces (BUILDING_EFFECTS buildingType))"

text \<open>\<open>cell.building?.owner === 'player'\<close>\<close>

definition isPlayerCell :: "Cell \<Rightarrow> bool" where
  "isPlayerCell c = (case building c of None \<Rightarrow> False | Some b \<Rightarrow> owner b = player_owner)"

text \<open>
  One round of the \<open>forEach\<close> body of \<open>calculateTurnResources\<close>; the four running
  totals \<open>goldChange\<close>, \<open>populationChange\<close>, \<open>foodChange\<close>, \<open>militaryChange\<close> are the
  accumulator. \<open>cell.adjacencyBonus || 0\<close> is the stored number (0 stays 0).
\<close>

definition turnResourcesStep :: "ResourceChange \<Rightarrow> Cell \<Rightarrow> ResourceChange" where
  "turnResourcesStep acc c =
     (case building c of
        None \<Rightarrow> acc
      | Some b \<Rightarrow>
          if owner b = player_owner then
            let eff = BUILDING_EFFECTS (btype b);
                bonus = adjacencyBonus c
            in \<lparr>rc_gold = rc_gold acc + (rc_gold (produces eff) + bonus) - rc_gold (consumes eff),
                rc_population = rc_population acc + rc_population (produces eff)
                                - rc_population (consumes eff),
                rc_food = rc_food acc + rc_food (produces eff) - rc_food (consumes eff),
                rc_military = rc_military acc + rc_military (produces eff)
                              - rc_military (consumes eff)\<rparr>
          else acc)"

definition calculateTurnResources :: "Grid \<Rightarrow> ResourceChange" where
  "calculateTurnResources g =
     foldl turnResourcesStep
       \<lparr>rc_gold = 5, rc_population = 1, rc_food = - 2, rc_military = 0\<rparr> (concat g)"

text \<open>The cells of the grid that hold a building of the player, in \<open>flat()\<close> order.\<close>

definition playerCells :: "Grid \<Rightarrow> Cell list" where
  "playerCells g = filter isPlayerCell (concat g)"

definition cellType :: "Cell \<Rightarrow> BuildingType" where
  "cellType c = btype (the (building c))"

definition netEffect :: "(ResourceChange \<Rightarrow> int) \<Rightarrow> BuildingType \<Rightarrow> int" where
  "netEffect field t = field (produces (BUILDING_EFFECTS t)) - field (consumes (BUILDING_EFFECTS t))"

subsection \<open>Distances, adjacency and placement rules\<close>

text \<open>
  The grid is created with \<open>GRID_SIZE\<close> rows of \<open>GRID_SIZE\<close> cells, each cell storing
  its own coordinates, and no operation changes its shape: \<open>wf_grid\<close>. The source reads
  \<open>grid[y][x]\<close>, rows first. Reads that the source guards with a comparison against
  \<open>GRID_SIZE\<close> are in range on such a grid; reads at coordinates given by the caller are
  not guarded, and reading a field of \<open>undefined\<close> throws a \<open>TypeError\<close>.

  Every grid array the program creates (the first one and the shallow copies made by
  \<open>revealAdjacentCells\<close>) holds the same row arrays and the same cell objects, which are
  updated in place. The \<open>Grid\<close> value of the model is the content of these objects; a
  function that reads \<open>gameState.grid\<close> from its closure while the objects are being
  updated reads the current content, so the model passes it the current grid.
\<close>

datatype error = TypeError

definition inBounds :: "int \<Rightarrow> int \<Rightarrow> bool" where
  "inBounds x y = (x \<ge> 0 \<and> x < GRID_SIZE \<and> y \<ge> 0 \<and> y < GRID_SIZE)"

definition wf_grid :: "Grid \<Rightarrow> bool" where
  "wf_grid g =
     (length g = 12 \<and>
      (\<forall>j < 12. length (g ! j) = 12 \<and>
         (\<forall>i < 12. cell_x (g ! j ! i) = int i \<and> cell_y (g ! j ! i) = int j)))"

definition cellAt :: "Grid \<Rightarrow> int \<Rightarrow> int \<Rightarrow> Cell" where
  "cellAt g x y = g ! nat y ! nat x"

text \<open>An in-place update of the cell object at \<open>grid[y][x]\<close>.\<close>

definition updateCell :: "Grid \<Rightarrow> int \<Rightarrow> int \<Rightarrow> (Cell \<Rightarrow> Cell) \<Rightarrow> Grid" where
  "updateCell g x y f = g[nat y := (g ! nat y)[nat x := f (g ! nat y ! nat x)]]"

definition calculateDistance :: "int \<Rightarrow> int \<Rightarrow> int \<Rightarrow> int \<Rightarrow> int" where
  "calculateDistance x1 y1 x2 y2 = max \<bar>x1 - x2\<bar> \<bar>y1 - y2\<bar>"

text \<open>
  \<open>findNearestBuilding\<close>: the running minimum starts at \<open>Infinity\<close>, here \<open>None\<close>, and the
  function returns \<open>null\<close>, here \<open>None\<close>, when it still is \<open>Infinity\<close> at the end.
\<close>

definition nearestStep :: "int \<Rightarrow> int \<Rightarrow> BuildingType option \<Rightarrow> int option \<Rightarrow> Cell \<Rightarrow> int option" where
  "nearestStep x y buildingType minD c =
     (case building c of
        None \<Rightarrow> minD
      | Some b \<Rightarrow>
          if owner b = player_owner then
            (if buildingType = None \<or> Some (btype b) = buildingType then
               (let distance = calculateDistance x y (cell_x c) (cell_y c)
                in case minD of None \<Rightarrow> Some distance | Some m \<Rightarrow> Some (min m distance))
             else minD)
          else minD)"

definition findNearestBuilding :: "Grid \<Rightarrow> int \<Rightarrow> int \<Rightarrow> BuildingType option \<Rightarrow> int option" where
  "findNearestBuilding g x y buildingType = foldl (nearestStep x y buildingType) None (concat g)"

text \<open>The pairs \<open>(dx, dy)\<close> in the order of the two nested loops, \<open>dy\<close> outermost.\<close>

definition offsets :: "(int \<times> int) list" where
  "offsets = concat (map (\<lambda>dy. map (\<lambda>dx. (dx, dy)) [- 1, 0, 1]) [- 1, 0, 1])"

text \<open>\<open>bonuses[adjCell.building.type] || 0\<close>, with \<open>bonuses = ADJACENCY_BONUSES[buildingType]\<close>.\<close>

definition bonusFor :: "BuildingType \<Rightarrow> BuildingType \<Rightarrow> int" where
  "bonusFor buildingType n =
     (case map_of (ADJACENCY_BONUSES buildingType) n of None \<Rightarrow> 0 | Some b \<Rightarrow> b)"

definition adjacencyStep :: "Grid \<Rightarrow> int \<Rightarrow> int \<Rightarrow> BuildingType \<Rightarrow> int \<Rightarrow> int \<times> int \<Rightarrow> int" where
  "adjacencyStep g x y buildingType totalBonus d =
     (case d of (dx, dy) \<Rightarrow>
        if dx = 0 \<and> dy = 0 then totalBonus
        else
          let adjX = x + dx; adjY = y + dy in
          if adjX \<ge> 0 \<and> adjX < GRID_SIZE \<and> adjY \<ge> 0 \<and> adjY < GRID_SIZE then
            (let adjCell = cellAt g adjX adjY in
             case building adjCell of
               None \<Rightarrow> totalBonus
             | Some b \<Rightarrow>
                 if owner b = player_owner then totalBonus + bonusFor buildingType (btype b)
                 else totalBonus)
          else totalBonus)"

definition calculateAdjacencyBonus :: "Grid \<Rightarrow> int \<Rightarrow> int \<Rightarrow> BuildingType \<Rightarrow> int" where
  "calculateAdjacencyBonus g x y buildingType = foldl (adjacencyStep g x y buildingType) 0 offsets"

definition canAffordBuilding :: "Player \<Rightarrow> BuildingType \<Rightarrow> error + bool" where
  "canAffordBuilding p buildingType =
     (case BUILDING_COSTS buildingType of
        None \<Rightarrow> Inl TypeError
      | Some cost \<Rightarrow>
          Inr (p_gold p \<ge> c_gold cost \<and> p_food p \<ge> c_food cost
               \<and> p_population p \<ge> c_population cost))"

definition isValidPlacement :: "Grid \<Rightarrow> int \<Rightarrow> int \<Rightarrow> BuildingType \<Rightarrow> error + bool" where
  "isValidPlacement g x y buildingType =
     (if \<not> (0 \<le> y \<and> nat y < length g) then Inl TypeError
      else if \<not> (0 \<le> x \<and> nat x < length (g ! nat y)) then Inl TypeError
      else
        let cell = cellAt g x y in
        if \<not> isRevealed cell \<or> building cell \<noteq> None \<or> terrain cell = water then Inr False
        else
          let rules = PLACEMENT_RULES buildingType in
          if terrain cell \<notin> set (validTerrain rules) then Inr False
          else if buildingType \<noteq> castle then
            (case findNearestBuilding g x y None of
               None \<Rightarrow> Inr False
             | Some distanceToNearestBuilding \<Rightarrow>
                 if distanceToNearestBuilding < minDistance rules
                    \<or> distanceToNearestBuilding > maxDistance rules
                 then Inr False else Inr True)
          else Inr True)"

definition revealStep :: "int \<Rightarrow> int \<Rightarrow> Grid \<Rightarrow> int \<times> int \<Rightarrow> Grid" where
  "revealStep x y newGrid d =
     (case d of (dx, dy) \<Rightarrow>
        let newX = x + dx; newY = y + dy in
        if newX \<ge> 0 \<and> newX < GRID_SIZE \<and> newY \<ge> 0 \<and> newY < GRID_SIZE then
          updateCell newGrid newX newY (\<lambda>c. c\<lparr>isRevealed := True\<rparr>)
        else newGrid)"

definition revealAdjacentCells :: "int \<Rightarrow> int \<Rightarrow> Grid \<Rightarrow> Grid" where
  "revealAdjacentCells x y g = foldl (revealStep x y) g offsets"

text \<open>
  \<open>updateAllAdjacencyBonuses\<close> visits the cell objects in \<open>flat()\<close> order and updates each
  in place; \<open>calculateAdjacencyBonus\<close> reads the objects as they are at that moment.
\<close>

definition positions :: "Grid \<Rightarrow> (nat \<times> nat) list" where
  "positions g = concat (map (\<lambda>j. map (\<lambda>i. (i, j)) [0 ..< length (g ! j)]) [0 ..< length g])"

definition adjacencyUpdateStep :: "Grid \<Rightarrow> nat \<times> nat \<Rightarrow> Grid" where
  "adjacencyUpdateStep g p =
     (case p of (i, j) \<Rightarrow>
        (let cell = g ! j ! i in
         (case building cell of
            None \<Rightarrow> g
          | Some b \<Rightarrow>
              if owner b = player_owner then
                (let bonus = calculateAdjacencyBonus g (cell_x cell) (cell_y cell) (btype b) in
                 updateCell g (int i) (int j)
                   (\<lambda>c. c\<lparr>building := Some (b\<lparr>income := getBaseIncome (btype b) + bonus\<rparr>),
                          adjacencyBonus := bonus\<rparr>))
              else g)))"

definition updateAllAdjacencyBonuses :: "Grid \<Rightarrow> Grid" where
  "updateAllAdjacencyBonuses g = foldl adjacencyUpdateStep g (positions g)"

subsection \<open>Territory, achievements, victory\<close>

text \<open>
  \<open>Math.round\<close> rounds to the nearest integer, a half towards \<open>+\<infinity>\<close>. The source applies
  it to doubles: to \<open>(revealed / 144) * 100\<close>, and to an integer delta times a seasonal
  factor 0, 0.1, 0.2, 0.3 or -0.1. On these arguments (counts up to 144, deltas far below
  \<open>2^50\<close>) the double is within a relative error of \<open>2^-52\<close> of the exact product, which is
  either a half, and then the double is exactly that half, or at least 1/72 away from
  one; so the exact rational rounds to the same integer.
\<close>

definition js_round :: "rat \<Rightarrow> int" where
  "js_round q = \<lfloor>q + 1/2\<rfloor>"

definition revealedCells :: "Grid \<Rightarrow> nat" where
  "revealedCells g = length (filter isRevealed (concat g))"

definition calculateTerritoryControl :: "Grid \<Rightarrow> int" where
  "calculateTerritoryControl g =
     (let totalCells = GRID_SIZE * GRID_SIZE
      in js_round ((of_nat (revealedCells g) / of_int totalCells) * 100))"

definition buildingCount :: "Grid \<Rightarrow> int" where
  "buildingCount g = int (length (filter isPlayerCell (concat g)))"

text \<open>The size of the \<open>Set\<close> of the types of the player's buildings.\<close>

definition uniqueBuildings :: "Grid \<Rightarrow> int" where
  "uniqueBuildings g = int (length (remdups (map cellType (filter isPlayerCell (concat g)))))"

definition updateAchievement :: "GameState \<Rightarrow> Achievement \<Rightarrow> Achievement" where
  "updateAchievement newState a =
     (if ach_id a = ''first_building'' then
        a\<lparr>progress := min (buildingCount (grid newState)) 1,
          unlocked := (buildingCount (grid newState) \<ge> 1)\<rparr>
      else if ach_id a = ''gold_collector'' then
        a\<lparr>progress := min (p_gold (player newState)) 1000,
          unlocked := (p_gold (player newState) \<ge> 1000)\<rparr>
      else if ach_id a = ''empire_builder'' then
        a\<lparr>progress := min (territoryControlPercentage newState) 25,
          unlocked := (territoryControlPercentage newState \<ge> 25)\<rparr>
      else if ach_id a = ''all_buildings'' then
        a\<lparr>progress := uniqueBuildings (grid newState),
          unlocked := (uniqueBuildings (grid newState) \<ge> 7)\<rparr>
      else if ach_id a = ''population_boom'' then
        a\<lparr>progress := min (p_population (player newState)) 100,
          unlocked := (p_population (player newState) \<ge> 100)\<rparr>
      else a)"

definition updateAchievements :: "GameState \<Rightarrow> Achievement list" where
  "updateAchievements newState = map (updateAchievement newState) (achievements newState)"

text \<open>
  \<open>checkVictoryConditions\<close> takes no argument: it reads the \<open>gameState\<close> of its closure.
  The result \<open>{ won, type }\<close> is a pair.
\<close>

definition checkVictoryConditions :: "GameState \<Rightarrow> bool \<times> VictoryType option" where
  "checkVictoryConditions gameState =
     (if territoryControlPercentage gameState \<ge> 60 then (True, Some territory)
      else if p_gold (player gameState) \<ge> 5000 \<and> p_population (player gameState) \<ge> 200
              \<and> p_food (player gameState) \<ge> 500
              \<and> p_militaryStrength (player gameState) \<ge> 100
      then (True, Some resources_victory)
      else
        (case find (\<lambda>a. ach_id a = ''all_buildings'') (achievements gameState) of
           Some masterArchitect \<Rightarrow>
             if unlocked masterArchitect then (True, Some buildings) else (False, None)
         | None \<Rightarrow> (False, None)))"

subsection \<open>Placing a building\<close>

text \<open>
  The state update of \<open>placeBuilding\<close>, run once both checks have passed; \<open>prev\<close> is the
  state being replaced.
\<close>

definition placeUpdate :: "GameState \<Rightarrow> int \<Rightarrow> int \<Rightarrow> BuildingType \<Rightarrow> Cost \<Rightarrow> int \<Rightarrow> GameState" where
  "placeUpdate prev x y buildingType cost bonus =
     (let g1 = revealAdjacentCells x y (grid prev);
          g2 = updateCell g1 x y
                 (\<lambda>c. c\<lparr>building := Some \<lparr>btype = buildingType, level = 1, owner = player_owner,
                                            income = getBaseIncome buildingType + bonus,
                                            adjacencyBonuses = []\<rparr>\<rparr>);
          g3 = updateCell g2 x y (\<lambda>c. c\<lparr>adjacencyBonus := bonus\<rparr>);
          newGrid = updateAllAdjacencyBonuses g3;
          newTerritoryControl = calculateTerritoryControl newGrid;
          newState = prev\<lparr>
            grid := newGrid,
            player := (player prev)\<lparr>
              p_gold := p_gold (player prev) - c_gold cost,
              p_food := p_food (player prev) - c_food cost,
              p_population := p_population (player prev) - c_population cost
                              + (if buildingType = house then 2 else 0)\<rparr>,
            territoryControlPercentage := newTerritoryControl\<rparr>
      in newState\<lparr>achievements := updateAchievements newState\<rparr>)"

text \<open>
  \<open>placeBuilding\<close>: \<open>Inl\<close> is an exception, thrown before any state update is requested;
  \<open>Inr\<close> is the game state after the call. The two checks and the adjacency bonus of the
  new building are computed from the closure's \<open>gameState\<close>, before the update.
\<close>

definition placeBuilding :: "GameState \<Rightarrow> int \<Rightarrow> int \<Rightarrow> BuildingType \<Rightarrow> error + GameState" where
  "placeBuilding gameState x y buildingType =
     (case isValidPlacement (grid gameState) x y buildingType of
        Inl e \<Rightarrow> Inl e
      | Inr valid \<Rightarrow>
          if \<not> valid then Inr gameState
          else
            (case canAffordBuilding (player gameState) buildingType of
               Inl e \<Rightarrow> Inl e
             | Inr affordable \<Rightarrow>
                 if \<not> affordable then Inr gameState
                 else
                   (case BUILDING_COSTS buildingType of
                      None \<Rightarrow> Inl TypeError
                    | Some cost \<Rightarrow>
                        Inr (placeUpdate gameState x y buildingType cost
                               (calculateAdjacencyBonus (grid gameState) x y buildingType)))))"

subsection \<open>Turn events\<close>

text \<open>The decimal rendering of an integer, as a template literal produces it.\<close>

function showNat :: "nat \<Rightarrow> string" where
  "showNat n =
     (if n < 10 then [''0123456789'' ! n]
      else showNat (n div 10) @ [''0123456789'' ! (n mod 10)])"
  by pat_completeness auto
termination
  by (relation "measure id") auto

declare showNat.simps [simp del]

definition showInt :: "int \<Rightarrow> string" where
  "showInt i = (if i < 0 then ''-'' @ showNat (nat (- i)) else showNat (nat i))"

text \<open>\<open>String.prototype.includes\<close>.\<close>

fun startsWith :: "string \<Rightarrow> string \<Rightarrow> bool" where
  "startsWith _ [] = True"
| "startsWith [] (n # ns) = False"
| "startsWith (c # cs) (n # ns) = (c = n \<and> startsWith cs ns)"

fun js_includes :: "string \<Rightarrow> string \<Rightarrow> bool" where
  "js_includes [] n = (n = [])"
| "js_includes (c # cs) n = (startsWith (c # cs) n \<or> js_includes cs n)"

definition generateTurnEvents :: "ResourceChange \<Rightarrow> int \<Rightarrow> TurnEvent list" where
  "generateTurnEvents rc buildings_n =
     (if rc_population rc > 2 then
        [\<lparr>ev_type = population_growth,
          ev_message = ''Your population is booming! +'' @ showInt (rc_population rc)
                       @ '' citizens joined your empire.'',
          ev_icon = ''[people]'', ev_severity = None\<rparr>]
      else [])
     @ (if rc_gold rc > 50 then
          [\<lparr>ev_type = trade_success,
            ev_message = ''Excellent trade routes! Your merchants earned an extra +''
                         @ showInt \<lfloor>(of_int (rc_gold rc) :: rat) * (1/10)\<rfloor> @ '' gold.'',
            ev_icon = ''[moneybag]'', ev_severity = None\<rparr>]
        else [])
     @ (if rc_military rc > 5 then
          [\<lparr>ev_type = military_training,
            ev_message = ''Your forces grow stronger! Military training yields +''
                         @ showInt (rc_military rc) @ '' strength.'',
            ev_icon = ''[swords]'', ev_severity = None\<rparr>]
        else [])
     @ (if buildings_n > 5 then
          [\<lparr>ev_type = resource_bonus,
            ev_message = ''Your well-planned city provides efficiency bonuses to all buildings!'',
            ev_icon = ''[crane]'', ev_severity = None\<rparr>]
        else [])
     @ (if rc_food rc < - 10 then
          [\<lparr>ev_type = resource_bonus,
            ev_message = ''Food supplies are running low. Consider building more farms.'',
            ev_icon = ''[warning]'', ev_severity = None\<rparr>]
        else [])"

text \<open>
  \<open>generateRandomEvents\<close> draws \<open>Math.random()\<close> once for \<open>randomChance\<close> and, in the
  weather and discovery branches (at most one of them runs), once more for
  \<open>Math.floor(Math.random() * 3)\<close>, an index 0, 1 or 2 into a list of three. The two
  values are inputs of the model: \<open>randomChance\<close> and \<open>pick\<close>. The thresholds are the
  decimal fractions the source writes.
\<close>

datatype Pick = pick0 | pick1 | pick2

fun pickIndex :: "Pick \<Rightarrow> nat" where
  "pickIndex pick0 = 0"
| "pickIndex pick1 = 1"
| "pickIndex pick2 = 2"

fun seasonNameString :: "SeasonName \<Rightarrow> string" where
  "seasonNameString Spring = ''Spring''"
| "seasonNameString Summer = ''Summer''"
| "seasonNameString Autumn = ''Autumn''"
| "seasonNameString Winter = ''Winter''"

definition weatherEvents :: "Season \<Rightarrow> (string \<times> string \<times> Severity) list" where
  "weatherEvents season =
     [(season_icon season @ '' Perfect weather boosts all production by 15%!'',
       ''[rainbow]'', positive),
      (''[storm] Storms reduce military effectiveness this turn.'', ''[lightning]'', negative),
      (''[moon] Clear skies improve night operations.'', ''[sparkles]'', positive)]"

definition discoveries :: "(string \<times> string \<times> Severity) list" where
  "discoveries =
     [(''Miners discovered a rich gold vein! +200 gold bonus.'', ''[pick]'', positive),
      (''Fertile lands discovered! +50 food production.'', ''[sheaf]'', positive),
      (''Ancient ruins found! +20 population joins your empire.'', ''[temple]'', positive)]"

definition mkEvent :: "TurnEventType \<Rightarrow> string \<times> string \<times> Severity \<Rightarrow> TurnEvent" where
  "mkEvent t e =
     (case e of (m, i, sv) \<Rightarrow>
        \<lparr>ev_type = t, ev_message = m, ev_icon = i, ev_severity = Some sv\<rparr>)"

definition generateRandomEvents :: "nat \<Rightarrow> Season \<Rightarrow> rat \<Rightarrow> Pick \<Rightarrow> TurnEvent list" where
  "generateRandomEvents turn_n season randomChance pick =
     (if randomChance < 1/10 then
        [mkEvent weather_effect (weatherEvents season ! pickIndex pick)]
      else [])
     @ (if randomChance > 1/10 \<and> randomChance < 18/100 then
          [mkEvent resource_discovery (discoveries ! pickIndex pick)]
        else [])
     @ (if randomChance > 18/100 \<and> randomChance < 23/100 then
          [\<lparr>ev_type = bandit_attack,
            ev_message = ''[pirate flag] Bandits attack! Lost some resources but gained military experience.'',
            ev_icon = ''[swords]'', ev_severity = Some negative\<rparr>]
        else [])
     @ (if turn_n mod 4 = 0 \<and> turn_n > 1 then
          (let seasonIndex = ((turn_n - 1) div 4) mod 4;
               newSeason = SEASONS ! seasonIndex
           in [\<lparr>ev_type = seasonal_change,
                 ev_message = season_icon newSeason @ '' '' @ seasonNameString (season_name newSeason)
                              @ '' arrives! New bonuses and visual theme active.'',
                 ev_icon = season_icon newSeason, ev_severity = Some neutral\<rparr>])
        else [])"

text \<open>The \<open>switch\<close> of \<open>nextTurn\<close> over the random events, one event at a time.\<close>

definition eventBonusStep :: "ResourceChange \<Rightarrow> TurnEvent \<Rightarrow> ResourceChange" where
  "eventBonusStep eb event =
     (if ev_type event = resource_discovery then
        (let eb1 = (if js_includes (ev_message event) ''gold''
                    then eb\<lparr>rc_gold := rc_gold eb + 200\<rparr> else eb);
             eb2 = (if js_includes (ev_message event) ''food''
                    then eb1\<lparr>rc_food := rc_food eb1 + 50\<rparr> else eb1)
         in if js_includes (ev_message event) ''population''
            then eb2\<lparr>rc_population := rc_population eb2 + 20\<rparr> else eb2)
      else if ev_type event = bandit_attack then
        eb\<lparr>rc_gold := rc_gold eb - 50, rc_food := rc_food eb - 20,
           rc_military := rc_military eb + 5\<rparr>
      else eb)"

definition eventBonuses :: "TurnEvent list \<Rightarrow> ResourceChange" where
  "eventBonuses randomEvents =
     foldl eventBonusStep
       \<lparr>rc_gold = 0, rc_population = 0, rc_food = 0, rc_military = 0\<rparr> randomEvents"

subsection \<open>Advancing the turn\<close>

definition seasonIndex :: "nat \<Rightarrow> nat" where
  "seasonIndex t = (t div 4) mod 4"

definition seasonalBonuses :: "ResourceChange \<Rightarrow> Season \<Rightarrow> ResourceChange" where
  "seasonalBonuses rc newSeason =
     \<lparr>rc_gold = js_round (of_int (rc_gold rc) * goldBonus (effects newSeason)),
      rc_population = js_round (of_int (rc_population rc) * 0),
      rc_food = js_round (of_int (rc_food rc) * foodBonus (effects newSeason)),
      rc_military = js_round (of_int (rc_military rc) * militaryBonus (effects newSeason))\<rparr>"

definition adjustedResourceChanges :: "ResourceChange \<Rightarrow> Season \<Rightarrow> ResourceChange" where
  "adjustedResourceChanges rc newSeason =
     (let sb = seasonalBonuses rc newSeason
      in \<lparr>rc_gold = rc_gold rc + rc_gold sb,
          rc_population = rc_population rc,
          rc_food = rc_food rc + rc_food sb,
          rc_military = rc_military rc + rc_military sb\<rparr>)"

definition finalResourceChanges :: "ResourceChange \<Rightarrow> ResourceChange \<Rightarrow> ResourceChange" where
  "finalResourceChanges adjusted eb =
     \<lparr>rc_gold = rc_gold adjusted + rc_gold eb,
      rc_population = rc_population adjusted + rc_population eb,
      rc_food = rc_food adjusted + rc_food eb,
      rc_military = rc_military adjusted + rc_military eb\<rparr>"

definition newPlayer :: "Player \<Rightarrow> ResourceChange \<Rightarrow> Player" where
  "newPlayer p final =
     p\<lparr>p_gold := max 0 (p_gold p + rc_gold final),
       p_population := max 1 (p_population p + rc_population final),
       p_food := max 0 (p_food p + rc_food final),
       p_militaryStrength := max 0 (p_militaryStrength p + rc_military final),
       p_army := max 0 (p_army p + rc_military final div 2)\<rparr>"

text \<open>
  \<open>nextTurn\<close>: \<open>prev\<close> is the state being replaced. \<open>calculateTurnResources()\<close> and
  \<open>checkVictoryConditions()\<close> take no argument and read the \<open>gameState\<close> of the render in
  which the handler was created, which is the state being replaced; so the victory check
  is made on the state before the advance, not on \<open>newState\<close>, while
  \<open>updateAchievements(newState)\<close> is given the new state.
\<close>

definition nextTurn :: "GameState \<Rightarrow> rat \<Rightarrow> Pick \<Rightarrow> GameState" where
  "nextTurn prev randomChance pick =
     (let gameState = prev;
          rc = calculateTurnResources (grid gameState);
          newTimeOfDay = (if timeOfDay prev = day then night else day);
          buildings_n = buildingCount (grid prev);
          newSeason = SEASONS ! seasonIndex (turn prev);
          adjusted = adjustedResourceChanges rc newSeason;
          basicEvents = generateTurnEvents adjusted buildings_n;
          randomEvents = generateRandomEvents (turn prev + 1) newSeason randomChance pick;
          allEvents = basicEvents @ randomEvents;
          final = finalResourceChanges adjusted (eventBonuses randomEvents);
          newState = prev\<lparr>
            turn := turn prev + 1,
            timeOfDay := newTimeOfDay,
            isTransitioning := True,
            showTurnSummary := True,
            showEndTurnConfirm := False,
            player := newPlayer (player prev) final,
            resourceChanges := final,
            lastTurnIncome := final,
            turnEvents := allEvents,
            currentSeason := newSeason,
            isLoading := False\<rparr>;
          newState2 = newState\<lparr>achievements := updateAchievements newState\<rparr>;
          victoryCheck = checkVictoryConditions gameState
      in if fst victoryCheck then
           newState2\<lparr>gameWon := True, victoryType := snd victoryCheck,
                     showVictoryScreen := True, gamePhase := victory\<rparr>
         else newState2)"

subsection \<open>The first state and the player's actions\<close>

text \<open>
  The state initialiser draws two random numbers per cell, for the terrain and for the
  resources; they are the inputs \<open>terrainRand\<close> and \<open>resourceRand\<close>, by coordinates.
\<close>

definition initialCell :: "rat \<Rightarrow> rat \<Rightarrow> int \<Rightarrow> int \<Rightarrow> Cell" where
  "initialCell tr rr x y =
     \<lparr>cell_x = x, cell_y = y, isRevealed = False, building = None,
      terrain = (if tr < 1/10 then water else if tr < 3/10 then forest
                 else if tr < 4/10 then mountain else grass),
      resources = \<lfloor>rr * 20\<rfloor> + 10,
      adjacencyBonus = 0\<rparr>"

definition initialGrid :: "(nat \<Rightarrow> nat \<Rightarrow> rat) \<Rightarrow> (nat \<Rightarrow> nat \<Rightarrow> rat) \<Rightarrow> Grid" where
  "initialGrid terrainRand resourceRand =
     (let g0 = map (\<lambda>y. map (\<lambda>x. initialCell (terrainRand x y) (resourceRand x y) (int x) (int y))
                        [0 ..< nat GRID_SIZE])
                [0 ..< nat GRID_SIZE];
          centerX = GRID_SIZE div 2;
          centerY = GRID_SIZE div 2;
          g1 = updateCell g0 centerX centerY
                 (\<lambda>c. c\<lparr>building := Some \<lparr>btype = castle, level = 1, owner = player_owner,
                                            income = 20, adjacencyBonuses = []\<rparr>\<rparr>)
      in revealAdjacentCells centerX centerY g1)"

definition initialState :: "(nat \<Rightarrow> nat \<Rightarrow> rat) \<Rightarrow> (nat \<Rightarrow> nat \<Rightarrow> rat) \<Rightarrow> GameState" where
  "initialState terrainRand resourceRand =
     \<lparr>grid = initialGrid terrainRand resourceRand,
      turn = 1,
      timeOfDay = day,
      isTransitioning = False,
      player = \<lparr>p_gold = 300, p_population = 10, p_army = 5, p_food = 50,
                p_militaryStrength = 5\<rparr>,
      selectedCell = None,
      gamePhase = placement,
      resourceChanges = \<lparr>rc_gold = 0, rc_population = 0, rc_food = 0, rc_military = 0\<rparr>,
      lastTurnIncome = \<lparr>rc_gold = 0, rc_population = 0, rc_food = 0, rc_military = 0\<rparr>,
      turnEvents = [],
      showTurnSummary = False,
      showEndTurnConfirm = False,
      territoryControlPercentage = js_round ((9 / of_int (GRID_SIZE * GRID_SIZE)) * 100),
      currentSeason = SEASONS ! 0,
      achievements = INITIAL_ACHIEVEMENTS,
      gameWon = False,
      victoryType = None,
      showVictoryScreen = False,
      isLoading = False\<rparr>"

text \<open>
  The other state updates of the component: selecting a revealed cell (a click outside
  placement mode), the end-of-turn dialogue, closing the summary, and the timer that ends
  the day/night transition.
\<close>

definition selectCell :: "GameState \<Rightarrow> int \<Rightarrow> int \<Rightarrow> error + GameState" where
  "selectCell gameState x y =
     (if \<not> (0 \<le> y \<and> nat y < length (grid gameState)) then Inl TypeError
      else if \<not> (0 \<le> x \<and> nat x < length (grid gameState ! nat y)) then Inl TypeError
      else if \<not> isRevealed (cellAt (grid gameState) x y) then Inr gameState
      else Inr (gameState\<lparr>selectedCell := Some (x, y)\<rparr>))"

datatype Action =
  Place int int BuildingType
  | NextTurn rat Pick
  | SelectCell int int
  | ConfirmEndTurn
  | CancelEndTurn
  | CloseTurnSummary
  | EndTransition

text \<open>
  The game state after an action. An exception thrown by a handler leaves the state as it
  was.
\<close>

fun step :: "GameState \<Rightarrow> Action \<Rightarrow> GameState" where
  "step s (Place x y t) = (case placeBuilding s x y t of Inl e \<Rightarrow> s | Inr s' \<Rightarrow> s')"
| "step s (NextTurn randomChance pick) = nextTurn s randomChance pick"
| "step s (SelectCell x y) = (case selectCell s x y of Inl e \<Rightarrow> s | Inr s' \<Rightarrow> s')"
| "step s ConfirmEndTurn = s\<lparr>showEndTurnConfirm := True\<rparr>"
| "step s CancelEndTurn = s\<lparr>showEndTurnConfirm := False\<rparr>"
| "step s CloseTurnSummary = s\<lparr>showTurnSummary := False\<rparr>"
| "step s EndTransition = s\<lparr>isTransitioning := False\<rparr>"

definition run :: "GameState \<Rightarrow> Action list \<Rightarrow> GameState" where
  "run s as = foldl step s as"

section \<open>Photo gallery: the loading strategy\<close>



datatype EffectiveType = eff_4g | eff_3g | eff_2g | eff_slow_2g







section \<open>Notions used by the statements\<close>

text \<open>
  An example of a first state: every terrain draw is 0.5 (grass everywhere) and every
  resource draw is 0.5.
\<close>

definition exampleRand :: "nat \<Rightarrow> nat \<Rightarrow> rat" where
  "exampleRand x y = 1/2"

definition exampleState :: GameState where
  "exampleState = initialState exampleRand exampleRand"

text \<open>
  The shape of the grid, twelve rows of twelve cells, and what the adjacency rule reads
  of a cell: the type of the player's building on it, if there is one.
\<close>

definition shape12 :: "Grid \<Rightarrow> bool" where
  "shape12 g = (length g = 12 \<and> (\<forall>j < 12. length (g ! j) = 12))"

definition occ :: "Cell \<Rightarrow> BuildingType option" where
  "occ c = (case building c of None \<Rightarrow> None
            | Some b \<Rightarrow> if owner b = player_owner then Some (btype b) else None)"

text \<open>
  The cells adjacent to \<open>(x, y)\<close>: the cells of the grid at Chebyshev distance 1, at most
  eight of them; \<open>playerNeighbours\<close> are those that hold a building of the player.
  \<open>adjTerm\<close> is what one pair \<open>(dx, dy)\<close> of the two loops adds to the bonus.
\<close>

definition neighbours :: "int \<Rightarrow> int \<Rightarrow> (int \<times> int) set" where
  "neighbours x y = {p. inBounds (fst p) (snd p) \<and> calculateDistance x y (fst p) (snd p) = 1}"

definition playerNeighbours :: "Grid \<Rightarrow> int \<Rightarrow> int \<Rightarrow> (int \<times> int) set" where
  "playerNeighbours g x y = {p \<in> neighbours x y. isPlayerCell (cellAt g (fst p) (snd p))}"

definition shift :: "int \<Rightarrow> int \<Rightarrow> int \<times> int \<Rightarrow> int \<times> int" where
  "shift x y d = (x + fst d, y + snd d)"

definition adjTerm :: "Grid \<Rightarrow> int \<Rightarrow> int \<Rightarrow> BuildingType \<Rightarrow> int \<times> int \<Rightarrow> int" where
  "adjTerm g x y t d =
     (if d = (0, 0) then 0
      else if inBounds (x + fst d) (y + snd d) then
        (case occ (cellAt g (x + fst d) (y + snd d)) of None \<Rightarrow> 0 | Some n \<Rightarrow> bonusFor t n)
      else 0)"

text \<open>
  What \<open>updateAllAdjacencyBonuses\<close> does to one cell when the bonus is computed over the
  grid \<open>g0\<close>, and the grids in which the cells at the positions \<open>P\<close> have been updated so.
\<close>

definition adjOne :: "Grid \<Rightarrow> Cell \<Rightarrow> Cell" where
  "adjOne g0 c =
     (case building c of
        None \<Rightarrow> c
      | Some b \<Rightarrow>
          if owner b = player_owner then
            c\<lparr>building := Some (b\<lparr>income := getBaseIncome (btype b)
                                    + calculateAdjacencyBonus g0 (cell_x c) (cell_y c) (btype b)\<rparr>),
              adjacencyBonus := calculateAdjacencyBonus g0 (cell_x c) (cell_y c) (btype b)\<rparr>
          else c)"

definition partlyUpdated :: "Grid \<Rightarrow> (nat \<times> nat) set \<Rightarrow> Grid \<Rightarrow> bool" where
  "partlyUpdated g0 P g =
     (shape12 g \<and>
      (\<forall>j < 12. \<forall>i < 12. g ! j ! i = (if (i, j) \<in> P then adjOne g0 (g0 ! j ! i) else g0 ! j ! i)))"

text \<open>
  The conditions under which a building may be placed: the cell exists, is revealed, holds
  no building, is not water, has a terrain that the rules of the type list; for a type
  other than the castle the distance to the nearest building of the player exists and lies
  between the minimal and the maximal distance of the rules; and the player's gold, food
  and population each cover the cost of the type (the castle has no cost entry).
\<close>

definition nearestPlayerDistance :: "Grid \<Rightarrow> int \<Rightarrow> int \<Rightarrow> int option" where
  "nearestPlayerDistance g x y =
     (if playerCells g = [] then None
      else Some (Min (set (map (\<lambda>c. calculateDistance x y (cell_x c) (cell_y c)) (playerCells g)))))"

definition placementAllowed :: "GameState \<Rightarrow> int \<Rightarrow> int \<Rightarrow> BuildingType \<Rightarrow> bool" where
  "placementAllowed s x y t =
     (0 \<le> y \<and> nat y < length (grid s) \<and> 0 \<le> x \<and> nat x < length (grid s ! nat y)
      \<and> isRevealed (cellAt (grid s) x y)
      \<and> building (cellAt (grid s) x y) = None
      \<and> terrain (cellAt (grid s) x y) \<noteq> water
      \<and> terrain (cellAt (grid s) x y) \<in> set (validTerrain (PLACEMENT_RULES t))
      \<and> (t = castle \<or>
           (case nearestPlayerDistance (grid s) x y of
              None \<Rightarrow> False
            | Some d \<Rightarrow> minDistance (PLACEMENT_RULES t) \<le> d \<and> d \<le> maxDistance (PLACEMENT_RULES t)))
      \<and> (case BUILDING_COSTS t of
            None \<Rightarrow> False
          | Some cost \<Rightarrow> p_gold (player s) \<ge> c_gold cost \<and> p_food (player s) \<ge> c_food cost
                         \<and> p_population (player s) \<ge> c_population cost))"

text \<open>
  The grid of \<open>placeUpdate\<close> before the adjacency bonuses are updated.
\<close>

definition placedGrid :: "Grid \<Rightarrow> int \<Rightarrow> int \<Rightarrow> BuildingType \<Rightarrow> int \<Rightarrow> Grid" where
  "placedGrid g x y t bonus =
     updateCell
       (updateCell (revealAdjacentCells x y g) x y
          (\<lambda>c. c\<lparr>building := Some \<lparr>btype = t, level = 1, owner = player_owner,
                                     income = getBaseIncome t + bonus,
                                     adjacencyBonuses = []\<rparr>\<rparr>))
       x y (\<lambda>c. c\<lparr>adjacencyBonus := bonus\<rparr>)"

text \<open>
  The third victory condition as \<open>checkVictoryConditions\<close> reads it, and the resource
  thresholds of the second.
\<close>

definition allBuildingsUnlocked :: "GameState \<Rightarrow> bool" where
  "allBuildingsUnlocked s =
     (case find (\<lambda>a. ach_id a = ''all_buildings'') (achievements s) of
        None \<Rightarrow> False | Some masterArchitect \<Rightarrow> unlocked masterArchitect)"

definition resourceGoal :: "Player \<Rightarrow> bool" where
  "resourceGoal p =
     (p_gold p \<ge> 5000 \<and> p_population p \<ge> 200 \<and> p_food p \<ge> 500 \<and> p_militaryStrength p \<ge> 100)"

text \<open>
  Invariants of the states of a game: the grid keeps its shape and the territory
  percentage is the one of the grid; the player's resources are not negative; the
  achievement of all building types is unlocked exactly when the grid holds seven types;
  the season is the one of the turn number.
\<close>

definition inv_territory :: "GameState \<Rightarrow> bool" where
  "inv_territory s =
     (wf_grid (grid s) \<and> territoryControlPercentage s = calculateTerritoryControl (grid s))"

definition inv_player :: "GameState \<Rightarrow> bool" where
  "inv_player s =
     (0 \<le> p_gold (player s) \<and> 0 \<le> p_food (player s) \<and> 0 \<le> p_population (player s)
      \<and> 0 \<le> p_militaryStrength (player s) \<and> 0 \<le> p_army (player s))"

definition inv_achievements :: "GameState \<Rightarrow> bool" where
  "inv_achievements s =
     ((\<exists>a \<in> set (achievements s). ach_id a = ''all_buildings'')
      \<and> (allBuildingsUnlocked s \<longleftrightarrow> 7 \<le> uniqueBuildings (grid s)))"








declare step.simps [simp del]

section \<open>Turn resources are the sum over the player's buildings\<close>

lemma turnResourcesStep_gold:
  "rc_gold (turnResourcesStep acc c) =
     rc_gold acc
     + (if isPlayerCell c then netEffect rc_gold (cellType c) + adjacencyBonus c else 0)"
  by (simp add: turnResourcesStep_def isPlayerCell_def netEffect_def cellType_def Let_def
      split: option.splits)

lemma turnResourcesStep_population:
  "rc_population (turnResourcesStep acc c) =
     rc_population acc + (if isPlayerCell c then netEffect rc_population (cellType c) else 0)"
  by (simp add: turnResourcesStep_def isPlayerCell_def netEffect_def cellType_def Let_def
      split: option.splits)

lemma turnResourcesStep_food:
  "rc_food (turnResourcesStep acc c) =
     rc_food acc + (if isPlayerCell c then netEffect rc_food (cellType c) else 0)"
  by (simp add: turnResourcesStep_def isPlayerCell_def netEffect_def cellType_def Let_def
      split: option.splits)

lemma turnResourcesStep_military:
  "rc_military (turnResourcesStep acc c) =
     rc_military acc + (if isPlayerCell c then netEffect rc_military (cellType c) else 0)"
  by (simp add: turnResourcesStep_def isPlayerCell_def netEffect_def cellType_def Let_def
      split: option.splits)

lemma foldl_turnResources_gold:
  "rc_gold (foldl turnResourcesStep acc cs) =
     rc_gold acc
     + (\<Sum>c\<leftarrow>filter isPlayerCell cs. netEffect rc_gold (cellType c) + adjacencyBonus c)"
  by (induction cs arbitrary: acc) (simp_all add: turnResourcesStep_gold)

lemma foldl_turnResources_population:
  "rc_population (foldl turnResourcesStep acc cs) =
     rc_population acc + (\<Sum>c\<leftarrow>filter isPlayerCell cs. netEffect rc_population (cellType c))"
  by (induction cs arbitrary: acc) (simp_all add: turnResourcesStep_population)

lemma foldl_turnResources_food:
  "rc_food (foldl turnResourcesStep acc cs) =
     rc_food acc + (\<Sum>c\<leftarrow>filter isPlayerCell cs. netEffect rc_food (cellType c))"
  by (induction cs arbitrary: acc) (simp_all add: turnResourcesStep_food)

lemma foldl_turnResources_military:
  "rc_military (foldl turnResourcesStep acc cs) =
     rc_military acc + (\<Sum>c\<leftarrow>filter isPlayerCell cs. netEffect rc_military (cellType c))"
  by (induction cs arbitrary: acc) (simp_all add: turnResourcesStep_military)

text \<open>
  Claim C1. For every grid, \<open>calculateTurnResources\<close> returns the base deltas (gold 5,
  population 1, food -2, military 0) plus, summed over the cells that hold a building of
  the player, the production minus the consumption that \<open>BUILDING_EFFECTS\<close> gives for the
  building's type; the adjacency bonus stored in the cell is added to the gold delta and
  to no other.
\<close>

theorem calculateTurnResources_sum:
  "calculateTurnResources g =
     \<lparr>rc_gold = 5 + (\<Sum>c\<leftarrow>playerCells g. netEffect rc_gold (cellType c) + adjacencyBonus c),
      rc_population = 1 + (\<Sum>c\<leftarrow>playerCells g. netEffect rc_population (cellType c)),
      rc_food = - 2 + (\<Sum>c\<leftarrow>playerCells g. netEffect rc_food (cellType c)),
      rc_military = 0 + (\<Sum>c\<leftarrow>playerCells g. netEffect rc_military (cellType c))\<rparr>"
  by (rule ResourceChange.equality)
     (simp_all add: calculateTurnResources_def playerCells_def foldl_turnResources_gold
        foldl_turnResources_population foldl_turnResources_food foldl_turnResources_military)

section \<open>The gallery's loading strategy\<close>


section \<open>Reading and updating cells of the grid\<close>

lemma wf_grid_shape: "wf_grid g \<Longrightarrow> shape12 g"
  by (simp add: wf_grid_def shape12_def)

lemma nth_list_update_if:
  "xs[i := x] ! j = (if i = j \<and> i < length xs then x else xs ! j)"
  by (cases "i < length xs") (auto simp: nth_list_update list_update_beyond)

lemma updateCell_shape: "shape12 g \<Longrightarrow> shape12 (updateCell g x y f)"
  by (simp add: shape12_def updateCell_def nth_list_update_if)

lemma updateCell_nth:
  "shape12 g \<Longrightarrow> j < 12 \<Longrightarrow> i < 12 \<Longrightarrow> 0 \<le> x \<Longrightarrow> 0 \<le> y \<Longrightarrow>
     updateCell g x y f ! j ! i = (if int i = x \<and> int j = y then f (g ! j ! i) else g ! j ! i)"
  by (auto simp: shape12_def updateCell_def nth_list_update_if)

lemma set_offsets: "set offsets = {- 1, 0, 1} \<times> {- 1, 0, 1}"
  by (auto simp: offsets_def)

lemma abs_le_1_int: "\<bar>a::int\<bar> \<le> 1 \<longleftrightarrow> a = - 1 \<or> a = 0 \<or> a = 1"
  by arith

lemma in_offsets: "(a, b) \<in> set offsets \<longleftrightarrow> \<bar>a\<bar> \<le> 1 \<and> \<bar>b\<bar> \<le> 1"
  unfolding set_offsets mem_Sigma_iff abs_le_1_int by simp

lemma revealStep_shape: "shape12 g \<Longrightarrow> shape12 (revealStep x y g d)"
  by (cases d) (simp add: revealStep_def Let_def updateCell_shape)

lemma revealStep_nth:
  assumes "shape12 g" "j < 12" "i < 12"
  shows "revealStep x y g d ! j ! i =
       (if (int i - x, int j - y) = d then (g ! j ! i)\<lparr>isRevealed := True\<rparr> else g ! j ! i)"
proof (cases d)
  case (Pair dx dy)
  show ?thesis
  proof (cases "x + dx \<ge> 0 \<and> x + dx < GRID_SIZE \<and> y + dy \<ge> 0 \<and> y + dy < GRID_SIZE")
    case True
    then have "revealStep x y g d = updateCell g (x + dx) (y + dy) (\<lambda>c. c\<lparr>isRevealed := True\<rparr>)"
      by (simp add: revealStep_def Pair Let_def)
    moreover have "(int i = x + dx \<and> int j = y + dy) = ((int i - x, int j - y) = d)"
      using Pair by auto
    ultimately show ?thesis
      using True assms by (simp add: updateCell_nth)
  next
    case False
    then have "revealStep x y g d = g"
      by (auto simp add: revealStep_def Pair Let_def)
    moreover have "(int i - x, int j - y) \<noteq> d"
      using False assms Pair by (auto simp: GRID_SIZE_def)
    ultimately show ?thesis by simp
  qed
qed

lemma foldl_revealStep_shape:
  "shape12 g \<Longrightarrow> shape12 (foldl (revealStep x y) g ds)"
  by (induction ds arbitrary: g) (simp_all add: revealStep_shape)

lemma foldl_revealStep_nth:
  "shape12 g \<Longrightarrow> j < 12 \<Longrightarrow> i < 12 \<Longrightarrow>
     foldl (revealStep x y) g ds ! j ! i =
        (if (int i - x, int j - y) \<in> set ds then (g ! j ! i)\<lparr>isRevealed := True\<rparr> else g ! j ! i)"
proof (induction ds arbitrary: g)
  case Nil
  then show ?case by simp
next
  case (Cons d ds)
  have s: "shape12 (revealStep x y g d)"
    by (rule revealStep_shape [OF Cons.prems(1)])
  have "foldl (revealStep x y) g (d # ds) ! j ! i = foldl (revealStep x y) (revealStep x y g d) ds ! j ! i"
    by simp
  also have "\<dots> = (if (int i - x, int j - y) \<in> set ds
                     then (revealStep x y g d ! j ! i)\<lparr>isRevealed := True\<rparr>
                     else revealStep x y g d ! j ! i)"
    by (rule Cons.IH [OF s Cons.prems(2,3)])
  also have "\<dots> = (if (int i - x, int j - y) \<in> set (d # ds)
                     then (g ! j ! i)\<lparr>isRevealed := True\<rparr> else g ! j ! i)"
    by (simp add: revealStep_nth [OF Cons.prems])
  finally show ?case .
qed

lemma revealAdjacentCells_shape: "shape12 g \<Longrightarrow> shape12 (revealAdjacentCells x y g)"
  by (simp add: revealAdjacentCells_def foldl_revealStep_shape)

lemma revealAdjacentCells_nth:
  "shape12 g \<Longrightarrow> j < 12 \<Longrightarrow> i < 12 \<Longrightarrow>
     revealAdjacentCells x y g ! j ! i =
       (if \<bar>int i - x\<bar> \<le> 1 \<and> \<bar>int j - y\<bar> \<le> 1 then (g ! j ! i)\<lparr>isRevealed := True\<rparr>
        else g ! j ! i)"
  by (simp add: revealAdjacentCells_def foldl_revealStep_nth in_offsets)

section \<open>The adjacency bonus as a sum over the offsets\<close>

lemma adjacencyStep_eq:
  "adjacencyStep g x y t acc d = acc + adjTerm g x y t d"
  by (cases d)
     (simp add: adjacencyStep_def adjTerm_def inBounds_def occ_def Let_def split: option.splits)

lemma foldl_adjacencyStep:
  "foldl (adjacencyStep g x y t) acc ds = acc + sum_list (map (adjTerm g x y t) ds)"
  by (induction ds arbitrary: acc) (simp_all add: adjacencyStep_eq)

lemma calculateAdjacencyBonus_sum_list:
  "calculateAdjacencyBonus g x y t = sum_list (map (adjTerm g x y t) offsets)"
  by (simp add: calculateAdjacencyBonus_def foldl_adjacencyStep)

lemma adjTerm_cong:
  assumes "\<And>i j. i < 12 \<Longrightarrow> j < 12 \<Longrightarrow> occ (g ! j ! i) = occ (g' ! j ! i)"
  shows "adjTerm g x y t d = adjTerm g' x y t d"
proof (cases "d \<noteq> (0, 0) \<and> inBounds (x + fst d) (y + snd d)")
  case True
  then have "nat (x + fst d) < 12" "nat (y + snd d) < 12"
    by (auto simp: inBounds_def GRID_SIZE_def)
  then have "occ (cellAt g (x + fst d) (y + snd d)) = occ (cellAt g' (x + fst d) (y + snd d))"
    unfolding cellAt_def by (rule assms)
  then show ?thesis by (simp add: adjTerm_def)
next
  case False
  then show ?thesis by (auto simp: adjTerm_def)
qed

lemma calculateAdjacencyBonus_cong:
  assumes "\<And>i j. i < 12 \<Longrightarrow> j < 12 \<Longrightarrow> occ (g ! j ! i) = occ (g' ! j ! i)"
  shows "calculateAdjacencyBonus g x y t = calculateAdjacencyBonus g' x y t"
proof -
  have "adjTerm g x y t = adjTerm g' x y t"
    by (rule ext) (rule adjTerm_cong [OF assms])
  then show ?thesis by (simp add: calculateAdjacencyBonus_sum_list)
qed

section \<open>Updating all adjacency bonuses\<close>

text \<open>
  The loop of \<open>updateAllAdjacencyBonuses\<close> changes incomes and stored bonuses only, which
  \<open>calculateAdjacencyBonus\<close> does not read; so every cell ends up updated with the bonus
  of the grid the loop started from.
\<close>

lemma occ_adjOne [simp]: "occ (adjOne g0 c) = occ c"
  by (simp add: adjOne_def occ_def split: option.splits)

lemma adjOne_idem [simp]: "adjOne g0 (adjOne g0 c) = adjOne g0 c"
  by (simp add: adjOne_def split: option.splits)

lemma adjOne_fields [simp]:
  "cell_x (adjOne g0 c) = cell_x c" "cell_y (adjOne g0 c) = cell_y c"
  "isRevealed (adjOne g0 c) = isRevealed c" "terrain (adjOne g0 c) = terrain c"
  by (simp_all add: adjOne_def split: option.splits)

lemma adjOne_cong:
  assumes "\<And>i j. i < 12 \<Longrightarrow> j < 12 \<Longrightarrow> occ (g ! j ! i) = occ (g' ! j ! i)"
  shows "adjOne g c = adjOne g' c"
  by (simp add: adjOne_def calculateAdjacencyBonus_cong [OF assms] split: option.splits)

lemma adjacencyUpdateStep_eq:
  "adjacencyUpdateStep g (i, j) = updateCell g (int i) (int j) (adjOne g)"
  by (simp add: adjacencyUpdateStep_def adjOne_def updateCell_def Let_def split: option.splits)

lemma adjacencyUpdateStep_shape: "shape12 g \<Longrightarrow> shape12 (adjacencyUpdateStep g p)"
  by (cases p) (simp add: adjacencyUpdateStep_eq updateCell_shape)

lemma adjacencyUpdateStep_nth:
  assumes "shape12 g" "j < 12" "i < 12" "snd p < 12" "fst p < 12"
  shows "adjacencyUpdateStep g p ! j ! i = (if (i, j) = p then adjOne g (g ! j ! i) else g ! j ! i)"
proof (cases p)
  case (Pair a b)
  show ?thesis
    using assms Pair by (auto simp: adjacencyUpdateStep_eq updateCell_nth)
qed

lemma partlyUpdated_occ:
  "partlyUpdated g0 P g \<Longrightarrow> i < 12 \<Longrightarrow> j < 12 \<Longrightarrow> occ (g ! j ! i) = occ (g0 ! j ! i)"
  by (simp add: partlyUpdated_def)

lemma partlyUpdated_step:
  assumes "partlyUpdated g0 P g" "fst p < 12" "snd p < 12"
  shows "partlyUpdated g0 (insert p P) (adjacencyUpdateStep g p)"
proof -
  have sh: "shape12 g" using assms(1) by (simp add: partlyUpdated_def)
  have eq: "adjOne g = adjOne g0"
    by (rule ext) (rule adjOne_cong, rule partlyUpdated_occ [OF assms(1)])
  have "adjacencyUpdateStep g p ! j ! i
          = (if (i, j) \<in> insert p P then adjOne g0 (g0 ! j ! i) else g0 ! j ! i)"
    if "j < 12" "i < 12" for i j
  proof -
    have cur: "g ! j ! i = (if (i, j) \<in> P then adjOne g0 (g0 ! j ! i) else g0 ! j ! i)"
      using assms(1) that by (simp add: partlyUpdated_def)
    show ?thesis
      by (simp add: adjacencyUpdateStep_nth [OF sh that assms(3,2)] eq cur)
  qed
  then show ?thesis
    by (simp add: partlyUpdated_def adjacencyUpdateStep_shape [OF sh])
qed

lemma partlyUpdated_foldl:
  "partlyUpdated g0 P g \<Longrightarrow> (\<forall>p \<in> set ps. fst p < 12 \<and> snd p < 12) \<Longrightarrow>
     partlyUpdated g0 (P \<union> set ps) (foldl adjacencyUpdateStep g ps)"
proof (induction ps arbitrary: P g)
  case Nil
  then show ?case by simp
next
  case (Cons p ps)
  have "partlyUpdated g0 (insert p P) (adjacencyUpdateStep g p)"
    using Cons.prems by (simp add: partlyUpdated_step)
  then have "partlyUpdated g0 (insert p P \<union> set ps) (foldl adjacencyUpdateStep (adjacencyUpdateStep g p) ps)"
    using Cons.prems(2) by (intro Cons.IH) simp_all
  then show ?case by simp
qed

lemma set_positions: "shape12 g \<Longrightarrow> set (positions g) = {(i, j). i < 12 \<and> j < 12}"
  by (auto simp: positions_def shape12_def)

lemma foldl_adjacencyUpdateStep_shape:
  "shape12 g \<Longrightarrow> shape12 (foldl adjacencyUpdateStep g ps)"
  by (induction ps arbitrary: g) (simp_all add: adjacencyUpdateStep_shape)

lemma updateAllAdjacencyBonuses_shape:
  "shape12 g \<Longrightarrow> shape12 (updateAllAdjacencyBonuses g)"
  by (simp add: updateAllAdjacencyBonuses_def foldl_adjacencyUpdateStep_shape)

lemma updateAllAdjacencyBonuses_nth:
  assumes "shape12 g" "j < 12" "i < 12"
  shows "updateAllAdjacencyBonuses g ! j ! i = adjOne g (g ! j ! i)"
proof -
  have "partlyUpdated g {} g"
    using assms(1) by (simp add: partlyUpdated_def)
  then have "partlyUpdated g ({} \<union> set (positions g)) (foldl adjacencyUpdateStep g (positions g))"
    by (rule partlyUpdated_foldl) (simp add: set_positions [OF assms(1)])
  then show ?thesis
    using assms by (simp add: partlyUpdated_def updateAllAdjacencyBonuses_def set_positions)
qed

section \<open>The eight neighbours\<close>

lemma distinct_offsets: "distinct offsets"
  by (simp add: offsets_def)

lemma distance_1_iff:
  "calculateDistance x y x' y' = 1 \<longleftrightarrow>
     (x' - x, y' - y) \<in> set offsets - {(0, 0)}"
proof -
  have "(max \<bar>x - x'\<bar> \<bar>y - y'\<bar> = 1) = (\<bar>x' - x\<bar> \<le> 1 \<and> \<bar>y' - y\<bar> \<le> 1 \<and> \<not> (x' - x = 0 \<and> y' - y = 0))"
    by arith
  then show ?thesis
    by (simp add: calculateDistance_def in_offsets)
qed

lemma inj_shift: "inj_on (shift x y) A"
  by (auto simp: inj_on_def shift_def)

lemma shift_image_iff:
  "p \<in> shift x y ` D \<longleftrightarrow> (fst p - x, snd p - y) \<in> D"
proof
  assume "p \<in> shift x y ` D"
  then obtain d where d: "d \<in> D" "p = shift x y d"
    by auto
  from d(2) have "d = (fst p - x, snd p - y)"
    by (simp add: shift_def)
  with d(1) show "(fst p - x, snd p - y) \<in> D"
    by simp
next
  assume "(fst p - x, snd p - y) \<in> D"
  moreover have "p = shift x y (fst p - x, snd p - y)"
    by (simp add: shift_def)
  ultimately show "p \<in> shift x y ` D"
    by (rule rev_image_eqI)
qed

lemma distance_1_set:
  "{p. calculateDistance x y (fst p) (snd p) = 1} = shift x y ` (set offsets - {(0, 0)})"
  by (rule set_eqI) (simp only: mem_Collect_eq distance_1_iff shift_image_iff)

lemma isPlayerCell_occ: "isPlayerCell c \<longleftrightarrow> occ c \<noteq> None"
  by (cases "building c") (simp_all add: isPlayerCell_def occ_def)

lemma occ_cellType: "isPlayerCell c \<Longrightarrow> occ c = Some (cellType c)"
  by (cases "building c") (simp_all add: isPlayerCell_def occ_def cellType_def)

lemma adjTerm_shift:
  "d \<noteq> (0, 0) \<Longrightarrow>
   adjTerm g x y t d =
     (if inBounds (fst (shift x y d)) (snd (shift x y d))
         \<and> isPlayerCell (cellAt g (fst (shift x y d)) (snd (shift x y d)))
      then bonusFor t (cellType (cellAt g (fst (shift x y d)) (snd (shift x y d)))) else 0)"
  by (auto simp: adjTerm_def shift_def isPlayerCell_occ occ_cellType split: option.splits)

lemma calculateAdjacencyBonus_neighbours:
  "calculateAdjacencyBonus g x y t =
     (\<Sum>p \<in> playerNeighbours g x y. bonusFor t (cellType (cellAt g (fst p) (snd p))))"
proof -
  let ?D = "set offsets - {(0, 0)}"
  let ?f = "\<lambda>p. bonusFor t (cellType (cellAt g (fst p) (snd p)))"
  let ?P = "\<lambda>p. inBounds (fst p) (snd p) \<and> isPlayerCell (cellAt g (fst p) (snd p))"
  have "playerNeighbours g x y = {p \<in> shift x y ` ?D. ?P p}"
    using distance_1_set [of x y] by (auto simp: playerNeighbours_def neighbours_def)
  then have "sum ?f (playerNeighbours g x y) = sum ?f {p \<in> shift x y ` ?D. ?P p}"
    by simp
  also have "\<dots> = sum (\<lambda>p. if ?P p then ?f p else 0) (shift x y ` ?D)"
    by (rule sum.inter_filter) simp
  also have "\<dots> = sum ((\<lambda>p. if ?P p then ?f p else 0) \<circ> shift x y) ?D"
    by (rule sum.reindex) (rule inj_shift)
  also have "\<dots> = sum (adjTerm g x y t) ?D"
    by (rule sum.cong) (simp_all add: adjTerm_shift)
  also have "\<dots> = sum (adjTerm g x y t) (set offsets)"
    by (rule sum.mono_neutral_left) (auto simp: adjTerm_def)
  also have "\<dots> = sum_list (map (adjTerm g x y t) offsets)"
    by (simp add: sum_list_distinct_conv_sum_set distinct_offsets)
  finally show ?thesis
    by (simp add: calculateAdjacencyBonus_sum_list)
qed

lemma card_neighbours: "card (neighbours x y) \<le> 8"
proof -
  have "neighbours x y \<subseteq> shift x y ` (set offsets - {(0, 0)})"
    using distance_1_set [of x y] by (auto simp: neighbours_def)
  then have "card (neighbours x y) \<le> card (shift x y ` (set offsets - {(0, 0)}))"
    by (intro card_mono) simp_all
  also have "\<dots> = card (set offsets - {(0::int, 0::int)})"
    by (rule card_image) (rule inj_shift)
  also have "\<dots> = 8"
    by (simp add: offsets_def)
  finally show ?thesis .
qed

section \<open>The placement check\<close>

lemma nearestStep_player:
  "isPlayerCell c \<Longrightarrow>
   nearestStep x y None acc c =
     Some (case acc of None \<Rightarrow> calculateDistance x y (cell_x c) (cell_y c)
           | Some m \<Rightarrow> min m (calculateDistance x y (cell_x c) (cell_y c)))"
  by (cases "building c") (simp_all add: nearestStep_def isPlayerCell_def Let_def split: option.splits)

lemma nearestStep_other:
  "\<not> isPlayerCell c \<Longrightarrow> nearestStep x y None acc c = acc"
  by (cases "building c") (simp_all add: nearestStep_def isPlayerCell_def Let_def)

lemma foldl_nearestStep_Some:
  "foldl (nearestStep x y None) (Some m) cs =
     Some (Min (insert m (set (map (\<lambda>c. calculateDistance x y (cell_x c) (cell_y c))
                                 (filter isPlayerCell cs)))))"
proof (induction cs arbitrary: m)
  case Nil
  show ?case by simp
next
  case (Cons c cs)
  show ?case
  proof (cases "isPlayerCell c")
    case True
    let ?d = "calculateDistance x y (cell_x c) (cell_y c)"
    let ?S = "set (map (\<lambda>c. calculateDistance x y (cell_x c) (cell_y c)) (filter isPlayerCell cs))"
    have "foldl (nearestStep x y None) (Some m) (c # cs) = Some (Min (insert (min m ?d) ?S))"
      using True by (simp add: nearestStep_player Cons.IH)
    also have "Min (insert (min m ?d) ?S) = Min (insert m (insert ?d ?S))"
    proof (cases "?S = {}")
      case True
      then show ?thesis by (simp add: min.commute)
    next
      case False
      then show ?thesis by (simp add: min.assoc)
    qed
    finally show ?thesis using True by simp
  next
    case False
    then show ?thesis by (simp add: nearestStep_other Cons.IH)
  qed
qed

lemma foldl_nearestStep_None:
  "foldl (nearestStep x y None) None cs =
     (if filter isPlayerCell cs = [] then None
      else Some (Min (set (map (\<lambda>c. calculateDistance x y (cell_x c) (cell_y c))
                             (filter isPlayerCell cs)))))"
proof (induction cs)
  case Nil
  show ?case by simp
next
  case (Cons c cs)
  show ?case
  proof (cases "isPlayerCell c")
    case True
    then show ?thesis by (simp add: nearestStep_player foldl_nearestStep_Some)
  next
    case False
    then show ?thesis by (simp add: nearestStep_other Cons.IH)
  qed
qed

lemma findNearestBuilding_eq:
  "findNearestBuilding g x y None = nearestPlayerDistance g x y"
  by (simp add: findNearestBuilding_def nearestPlayerDistance_def playerCells_def
      foldl_nearestStep_None)

lemma isValidPlacement_eq:
  "isValidPlacement g x y t =
     (if \<not> (0 \<le> y \<and> nat y < length g \<and> 0 \<le> x \<and> nat x < length (g ! nat y)) then Inl TypeError
      else Inr (isRevealed (cellAt g x y) \<and> building (cellAt g x y) = None
                \<and> terrain (cellAt g x y) \<noteq> water
                \<and> terrain (cellAt g x y) \<in> set (validTerrain (PLACEMENT_RULES t))
                \<and> (t = castle \<or>
                     (case nearestPlayerDistance g x y of
                        None \<Rightarrow> False
                      | Some d \<Rightarrow> minDistance (PLACEMENT_RULES t) \<le> d
                                  \<and> d \<le> maxDistance (PLACEMENT_RULES t)))))"
  by (auto simp: isValidPlacement_def Let_def findNearestBuilding_eq split: option.splits)

lemma placeBuilding_eq:
  "placeBuilding s x y t =
     (if \<not> (0 \<le> y \<and> nat y < length (grid s) \<and> 0 \<le> x \<and> nat x < length (grid s ! nat y))
      then Inl TypeError
      else if placementAllowed s x y t
      then Inr (placeUpdate s x y t (the (BUILDING_COSTS t))
                  (calculateAdjacencyBonus (grid s) x y t))
      else if t = castle \<and> isRevealed (cellAt (grid s) x y) \<and> building (cellAt (grid s) x y) = None
              \<and> terrain (cellAt (grid s) x y) \<in> {grass, mountain}
      then Inl TypeError
      else Inr s)"
  by (cases t)
     (auto simp: placeBuilding_def isValidPlacement_eq canAffordBuilding_def placementAllowed_def
        split: option.splits)

lemma step_Place_eq:
  "step s (Place x y t) =
     (if placementAllowed s x y t
      then placeUpdate s x y t (the (BUILDING_COSTS t)) (calculateAdjacencyBonus (grid s) x y t)
      else s)"
  by (auto simp: step.simps placeBuilding_eq placementAllowed_def)

section \<open>The grid after a placement\<close>

lemma wf_grid_iff:
  "wf_grid g \<longleftrightarrow>
     shape12 g \<and> (\<forall>j < 12. \<forall>i < 12. cell_x (g ! j ! i) = int i \<and> cell_y (g ! j ! i) = int j)"
  by (auto simp: wf_grid_def shape12_def)

lemma grid_placeUpdate:
  "grid (placeUpdate s x y t cost bonus) = updateAllAdjacencyBonuses (placedGrid (grid s) x y t bonus)"
  by (simp add: placeUpdate_def placedGrid_def Let_def)

lemma placedGrid_shape: "shape12 g \<Longrightarrow> shape12 (placedGrid g x y t bonus)"
  by (simp add: placedGrid_def updateCell_shape revealAdjacentCells_shape)

lemma placedGrid_nth:
  assumes "shape12 g" "0 \<le> x" "0 \<le> y" "j < 12" "i < 12"
  shows "placedGrid g x y t bonus ! j ! i =
     (if int i = x \<and> int j = y then
        (g ! j ! i)\<lparr>isRevealed := True,
                     building := Some \<lparr>btype = t, level = 1, owner = player_owner,
                                        income = getBaseIncome t + bonus, adjacencyBonuses = []\<rparr>,
                     adjacencyBonus := bonus\<rparr>
      else if \<bar>int i - x\<bar> \<le> 1 \<and> \<bar>int j - y\<bar> \<le> 1 then (g ! j ! i)\<lparr>isRevealed := True\<rparr>
      else g ! j ! i)"
  using assms
  by (simp add: placedGrid_def updateCell_nth updateCell_shape revealAdjacentCells_shape
      revealAdjacentCells_nth)

lemma placedGrid_wf:
  assumes "wf_grid g" "0 \<le> x" "0 \<le> y"
  shows "wf_grid (placedGrid g x y t bonus)"
proof -
  have sh: "shape12 g" using assms(1) by (simp add: wf_grid_iff)
  show ?thesis
    using assms(1)
    by (simp add: wf_grid_iff [of "placedGrid g x y t bonus"] placedGrid_shape [OF sh]
        placedGrid_nth [OF sh assms(2,3)])
       (simp add: wf_grid_iff)
qed

lemma updateAllAdjacencyBonuses_wf:
  assumes "wf_grid g"
  shows "wf_grid (updateAllAdjacencyBonuses g)"
proof -
  have sh: "shape12 g" using assms by (simp add: wf_grid_iff)
  show ?thesis
    using assms
    by (simp add: wf_grid_iff [of "updateAllAdjacencyBonuses g"]
        updateAllAdjacencyBonuses_shape [OF sh] updateAllAdjacencyBonuses_nth [OF sh])
       (simp add: wf_grid_iff)
qed

lemma updateAllAdjacencyBonuses_occ:
  "shape12 g \<Longrightarrow> i < 12 \<Longrightarrow> j < 12 \<Longrightarrow>
     occ (updateAllAdjacencyBonuses g ! j ! i) = occ (g ! j ! i)"
  by (simp add: updateAllAdjacencyBonuses_nth)

lemma calculateAdjacencyBonus_updateAll:
  "shape12 g \<Longrightarrow>
     calculateAdjacencyBonus (updateAllAdjacencyBonuses g) x y t = calculateAdjacencyBonus g x y t"
  by (rule calculateAdjacencyBonus_cong) (simp add: updateAllAdjacencyBonuses_occ)

lemma adjOne_building:
  assumes "building (adjOne g c) = Some b" "owner b = player_owner"
  shows "income b = getBaseIncome (btype b) + calculateAdjacencyBonus g (cell_x c) (cell_y c) (btype b)
         \<and> adjacencyBonus (adjOne g c) = calculateAdjacencyBonus g (cell_x c) (cell_y c) (btype b)"
proof (cases "building c")
  case None
  then show ?thesis using assms by (simp add: adjOne_def)
next
  case (Some b0)
  then show ?thesis using assms by (auto simp: adjOne_def split: if_splits)
qed

lemma updateAllAdjacencyBonuses_income:
  assumes wf: "wf_grid g" and ij: "j < 12" "i < 12"
    and b: "building (updateAllAdjacencyBonuses g ! j ! i) = Some b" "owner b = player_owner"
  shows "income b = getBaseIncome (btype b)
            + calculateAdjacencyBonus (updateAllAdjacencyBonuses g) (int i) (int j) (btype b)
         \<and> adjacencyBonus (updateAllAdjacencyBonuses g ! j ! i)
            = calculateAdjacencyBonus (updateAllAdjacencyBonuses g) (int i) (int j) (btype b)"
proof -
  have sh: "shape12 g" using wf by (simp add: wf_grid_iff)
  have xy: "cell_x (g ! j ! i) = int i" "cell_y (g ! j ! i) = int j"
    using wf ij by (simp_all add: wf_grid_iff)
  have "building (adjOne g (g ! j ! i)) = Some b"
    using b(1) by (simp add: updateAllAdjacencyBonuses_nth [OF sh ij])
  from adjOne_building [OF this b(2)] show ?thesis
    by (simp add: xy calculateAdjacencyBonus_updateAll [OF sh]
        updateAllAdjacencyBonuses_nth [OF sh ij])
qed

lemma placementAllowed_range:
  "shape12 (grid s) \<Longrightarrow> placementAllowed s x y t \<Longrightarrow> 0 \<le> x \<and> 0 \<le> y \<and> nat x < 12 \<and> nat y < 12"
  by (auto simp: placementAllowed_def shape12_def)

lemma placed_isRevealed:
  assumes "shape12 (grid s)" "placementAllowed s x y t" "j < 12" "i < 12"
  shows "isRevealed (grid (step s (Place x y t)) ! j ! i) \<longleftrightarrow>
           (\<bar>int i - x\<bar> \<le> 1 \<and> \<bar>int j - y\<bar> \<le> 1) \<or> isRevealed (grid s ! j ! i)"
proof -
  have r: "0 \<le> x" "0 \<le> y"
    using placementAllowed_range [OF assms(1,2)] by simp_all
  show ?thesis
    using assms(2)
    by (auto simp add: step_Place_eq grid_placeUpdate
        updateAllAdjacencyBonuses_nth [OF placedGrid_shape [OF assms(1)] assms(3,4)]
        placedGrid_nth [OF assms(1) r assms(3,4)])
qed

lemma placed_building:
  assumes "shape12 (grid s)" "placementAllowed s x y t"
  shows "\<exists>b. building (cellAt (grid (step s (Place x y t))) x y) = Some b
             \<and> btype b = t \<and> owner b = player_owner"
proof -
  have r: "0 \<le> x" "0 \<le> y" "nat x < 12" "nat y < 12"
    using placementAllowed_range [OF assms(1,2)] by simp_all
  show ?thesis
    using assms(2) r
    by (simp add: step_Place_eq grid_placeUpdate cellAt_def
        updateAllAdjacencyBonuses_nth [OF placedGrid_shape [OF assms(1)] r(4,3)]
        placedGrid_nth [OF assms(1) r(1,2,4,3)] adjOne_def)
qed

lemma placed_wf:
  assumes "wf_grid (grid s)"
  shows "wf_grid (grid (step s (Place x y t)))"
proof (cases "placementAllowed s x y t")
  case True
  have sh: "shape12 (grid s)" using assms by (simp add: wf_grid_iff)
  have r: "0 \<le> x" "0 \<le> y"
    using placementAllowed_range [OF sh True] by simp_all
  show ?thesis
    using True
    by (simp add: step_Place_eq grid_placeUpdate updateAllAdjacencyBonuses_wf
        placedGrid_wf [OF assms r])
next
  case False
  then show ?thesis using assms by (simp add: step_Place_eq)
qed

lemma placed_income:
  assumes "wf_grid (grid s)" "placementAllowed s x y t" "j < 12" "i < 12"
    and "building (grid (step s (Place x y t)) ! j ! i) = Some b" "owner b = player_owner"
  shows "income b = getBaseIncome (btype b)
            + calculateAdjacencyBonus (grid (step s (Place x y t))) (int i) (int j) (btype b)"
proof -
  have sh: "shape12 (grid s)" using assms(1) by (simp add: wf_grid_iff)
  have r: "0 \<le> x" "0 \<le> y"
    using placementAllowed_range [OF sh assms(2)] by simp_all
  have g: "grid (step s (Place x y t))
        = updateAllAdjacencyBonuses (placedGrid (grid s) x y t (calculateAdjacencyBonus (grid s) x y t))"
    using assms(2) by (simp add: step_Place_eq grid_placeUpdate)
  show ?thesis
    using updateAllAdjacencyBonuses_income [OF placedGrid_wf [OF assms(1) r] assms(3,4), of t
        "calculateAdjacencyBonus (grid s) x y t" b] assms(5,6)
    by (simp add: g)
qed

section \<open>The first grid\<close>

lemma updateCell_wf:
  assumes "wf_grid g" "0 \<le> x" "0 \<le> y"
    and "\<And>c. cell_x (f c) = cell_x c \<and> cell_y (f c) = cell_y c"
  shows "wf_grid (updateCell g x y f)"
proof -
  have sh: "shape12 g" using assms(1) by (simp add: wf_grid_iff)
  show ?thesis
    using assms(1,4)
    by (simp add: wf_grid_iff [of "updateCell g x y f"] updateCell_shape [OF sh]
        updateCell_nth [OF sh _ _ assms(2,3)])
       (simp add: wf_grid_iff)
qed

lemma revealAdjacentCells_wf:
  assumes "wf_grid g"
  shows "wf_grid (revealAdjacentCells x y g)"
proof -
  have sh: "shape12 g" using assms(1) by (simp add: wf_grid_iff)
  show ?thesis
    using assms(1)
    by (simp add: wf_grid_iff [of "revealAdjacentCells x y g"] revealAdjacentCells_shape [OF sh]
        revealAdjacentCells_nth [OF sh])
       (simp add: wf_grid_iff)
qed

lemma initialGrid_wf: "wf_grid (initialGrid tr rr)"
proof -
  let ?g0 = "map (\<lambda>y. map (\<lambda>x. initialCell (tr x y) (rr x y) (int x) (int y)) [0 ..< 12]) [0 ..< 12]"
  have "wf_grid ?g0"
    by (simp add: wf_grid_def initialCell_def)
  then show ?thesis
    by (simp add: initialGrid_def GRID_SIZE_def Let_def revealAdjacentCells_wf updateCell_wf)
qed

lemma initialGrid_revealed: "revealedCells (initialGrid tr rr) = 9"
  by code_simp

lemma initialGrid_unique: "uniqueBuildings (initialGrid tr rr) = 1"
  by code_simp

section \<open>Counting revealed cells\<close>

lemma filter_length_mono:
  "list_all2 (\<lambda>a b. P a \<longrightarrow> P b) xs ys \<Longrightarrow> length (filter P xs) \<le> length (filter P ys)"
  by (induction rule: list_all2_induct) auto

lemma list_all2_concat:
  "list_all2 (list_all2 R) xss yss \<Longrightarrow> list_all2 R (concat xss) (concat yss)"
  by (induction rule: list_all2_induct) (auto intro: list_all2_appendI)

lemma revealedCells_mono:
  assumes "shape12 g" "shape12 g'"
    and "\<And>i j. i < 12 \<Longrightarrow> j < 12 \<Longrightarrow> isRevealed (g ! j ! i) \<Longrightarrow> isRevealed (g' ! j ! i)"
  shows "revealedCells g \<le> revealedCells g'"
proof -
  have "list_all2 (list_all2 (\<lambda>a b. isRevealed a \<longrightarrow> isRevealed b)) g g'"
    using assms by (simp add: list_all2_conv_all_nth shape12_def)
  then show ?thesis
    unfolding revealedCells_def by (intro filter_length_mono list_all2_concat)
qed

lemma js_round_mono: "a \<le> b \<Longrightarrow> js_round a \<le> js_round b"
  by (simp add: js_round_def floor_mono)

lemma calculateTerritoryControl_mono:
  "revealedCells g \<le> revealedCells g' \<Longrightarrow> calculateTerritoryControl g \<le> calculateTerritoryControl g'"
  by (simp add: calculateTerritoryControl_def GRID_SIZE_def Let_def js_round_mono divide_right_mono)

lemma calculateTerritoryControl_eq:
  "calculateTerritoryControl g = js_round (100 * of_nat (revealedCells g) / 144)"
  by (simp add: calculateTerritoryControl_def GRID_SIZE_def Let_def)

section \<open>States after an action\<close>

lemma nextTurn_grid: "grid (nextTurn s r k) = grid s"
  by (simp add: nextTurn_def Let_def)

lemma nextTurn_territory:
  "territoryControlPercentage (nextTurn s r k) = territoryControlPercentage s"
  by (simp add: nextTurn_def Let_def)

lemma placeUpdate_territory:
  "territoryControlPercentage (placeUpdate s x y t cost bonus)
     = calculateTerritoryControl (grid (placeUpdate s x y t cost bonus))"
  by (simp add: placeUpdate_def Let_def)

lemma selectCell_fields:
  "grid (step s (SelectCell x y)) = grid s"
  "territoryControlPercentage (step s (SelectCell x y)) = territoryControlPercentage s"
  "player (step s (SelectCell x y)) = player s"
  "achievements (step s (SelectCell x y)) = achievements s"
  by (simp_all add: step.simps selectCell_def)

lemma inv_territory_initial: "inv_territory (initialState tr rr)"
  by (simp add: inv_territory_def initialState_def initialGrid_wf calculateTerritoryControl_eq
      initialGrid_revealed GRID_SIZE_def)

lemma step_revealed:
  assumes "shape12 (grid s)" "j < 12" "i < 12" "isRevealed (grid s ! j ! i)"
  shows "isRevealed (grid (step s a) ! j ! i)"
proof (cases a)
  case (Place x y t)
  show ?thesis
  proof (cases "placementAllowed s x y t")
    case True
    then show ?thesis
      using assms by (simp add: Place placed_isRevealed)
  next
    case False
    then show ?thesis
      using assms by (simp add: Place step_Place_eq)
  qed
next
  case (NextTurn r k)
  then show ?thesis using assms by (simp add: step.simps nextTurn_grid)
next
  case (SelectCell x y)
  then show ?thesis using assms by (simp add: selectCell_fields)
qed (use assms in \<open>simp_all add: step.simps\<close>)

lemma step_inv_territory:
  assumes "inv_territory s"
  shows "inv_territory (step s a)"
proof (cases a)
  case (Place x y t)
  show ?thesis
  proof (cases "placementAllowed s x y t")
    case True
    have "wf_grid (grid (step s (Place x y t)))"
      using assms by (simp add: inv_territory_def placed_wf)
    then show ?thesis
      using True by (simp add: inv_territory_def Place step_Place_eq placeUpdate_territory)
  next
    case False
    then show ?thesis
      using assms by (simp add: Place step_Place_eq)
  qed
next
  case (NextTurn r k)
  then show ?thesis
    using assms by (simp add: inv_territory_def step.simps nextTurn_grid nextTurn_territory)
next
  case (SelectCell x y)
  then show ?thesis using assms by (simp add: inv_territory_def selectCell_fields)
qed (use assms in \<open>simp_all add: step.simps inv_territory_def\<close>)

lemma step_territory_mono:
  assumes "inv_territory s"
  shows "territoryControlPercentage s \<le> territoryControlPercentage (step s a)"
proof -
  have sh: "shape12 (grid s)" "shape12 (grid (step s a))"
    using assms step_inv_territory [OF assms, of a] by (simp_all add: inv_territory_def wf_grid_iff)
  have "revealedCells (grid s) \<le> revealedCells (grid (step s a))"
    by (rule revealedCells_mono [OF sh]) (rule step_revealed [OF sh(1)])
  then show ?thesis
    using assms step_inv_territory [OF assms, of a]
    by (simp add: inv_territory_def calculateTerritoryControl_mono)
qed

lemma run_Nil [simp]: "run s [] = s"
  by (simp add: run_def)


lemma run_snoc: "run s (as @ [a]) = step (run s as) a"
  by (simp add: run_def)

lemma run_append: "run s (as @ bs) = run (run s as) bs"
  by (simp add: run_def)

lemma run_inv_territory: "inv_territory s \<Longrightarrow> inv_territory (run s as)"
  by (induction as rule: rev_induct) (simp_all add: run_snoc step_inv_territory)

lemma run_territory_mono:
  "inv_territory s \<Longrightarrow> territoryControlPercentage s \<le> territoryControlPercentage (run s as)"
proof (induction as rule: rev_induct)
  case Nil
  show ?case by simp
next
  case (snoc a as)
  have "territoryControlPercentage (run s as) \<le> territoryControlPercentage (step (run s as) a)"
    by (rule step_territory_mono [OF run_inv_territory [OF snoc.prems]])
  with snoc.IH [OF snoc.prems] show ?case
    by (simp add: run_snoc)
qed

section \<open>Victory and achievements\<close>

lemma checkVictoryConditions_eq:
  "checkVictoryConditions s =
     (if territoryControlPercentage s \<ge> 60 then (True, Some territory)
      else if resourceGoal (player s) then (True, Some resources_victory)
      else if allBuildingsUnlocked s then (True, Some buildings)
      else (False, None))"
  by (simp add: checkVictoryConditions_def resourceGoal_def allBuildingsUnlocked_def
      split: option.splits)

lemma UNIV_BuildingType: "(UNIV :: BuildingType set) = {castle, house, farm, mine, barracks, tower, market}"
  by (auto intro: BuildingType.exhaust)

lemma card_BuildingType: "card (UNIV :: BuildingType set) = 7"
  by (simp add: UNIV_BuildingType)

lemma uniqueBuildings_7:
  "7 \<le> uniqueBuildings g \<longleftrightarrow> (\<forall>t. \<exists>c \<in> set (playerCells g). cellType c = t)"
proof -
  let ?S = "set (map cellType (playerCells g))"
  have fin: "finite (UNIV :: BuildingType set)"
    by (simp add: UNIV_BuildingType)
  have "uniqueBuildings g = int (card ?S)"
    by (simp add: uniqueBuildings_def playerCells_def length_remdups_card_conv)
  moreover have "7 \<le> card ?S \<longleftrightarrow> ?S = UNIV"
  proof
    assume "7 \<le> card ?S"
    then have "card (UNIV :: BuildingType set) \<le> card ?S"
      by (simp add: card_BuildingType)
    then show "?S = UNIV"
      by (intro card_seteq [OF fin]) simp_all
  next
    assume "?S = UNIV"
    then show "7 \<le> card ?S"
      by (simp add: card_BuildingType)
  qed
  moreover have "?S = UNIV \<longleftrightarrow> (\<forall>t. \<exists>c \<in> set (playerCells g). cellType c = t)"
    by (simp add: set_eq_iff image_iff) metis
  ultimately show ?thesis by simp
qed

lemma ach_id_updateAchievement [simp]: "ach_id (updateAchievement st a) = ach_id a"
  by (simp add: updateAchievement_def)

lemma find_updateAchievements:
  "find (\<lambda>a. ach_id a = k) (map (updateAchievement st) as)
     = map_option (updateAchievement st) (find (\<lambda>a. ach_id a = k) as)"
  by (induction as) simp_all

lemma unlocked_all_buildings:
  "ach_id a = ''all_buildings'' \<Longrightarrow>
     unlocked (updateAchievement st a) = (7 \<le> uniqueBuildings (grid st))"
  by (simp add: updateAchievement_def)

lemma find_Some_ex:
  "(\<exists>a \<in> set as. P a) \<Longrightarrow> \<exists>a. find P as = Some a \<and> P a"
  by (induction as) auto

lemma inv_achievements_update:
  assumes "\<exists>a \<in> set (achievements st). ach_id a = ''all_buildings''"
    and "grid s' = grid st" "achievements s' = updateAchievements st"
  shows "inv_achievements s'"
proof -
  obtain a where a: "find (\<lambda>a. ach_id a = ''all_buildings'') (achievements st) = Some a"
      "ach_id a = ''all_buildings''"
    using find_Some_ex [OF assms(1)] by blast
  have "allBuildingsUnlocked s' = (7 \<le> uniqueBuildings (grid st))"
    by (simp add: allBuildingsUnlocked_def assms(3) updateAchievements_def find_updateAchievements a
        unlocked_all_buildings)
  moreover have "\<exists>b \<in> set (achievements s'). ach_id b = ''all_buildings''"
    using assms(1) by (auto simp: assms(3) updateAchievements_def)
  ultimately show ?thesis
    by (simp add: inv_achievements_def assms(2))
qed




lemma nextTurn_achievements:
  "achievements (nextTurn s r k) =
     updateAchievements (s\<lparr>
            turn := turn s + 1,
            timeOfDay := (if timeOfDay s = day then night else day),
            isTransitioning := True,
            showTurnSummary := True,
            showEndTurnConfirm := False,
            player := player (nextTurn s r k),
            resourceChanges := resourceChanges (nextTurn s r k),
            lastTurnIncome := resourceChanges (nextTurn s r k),
            turnEvents := turnEvents (nextTurn s r k),
            currentSeason := currentSeason (nextTurn s r k),
            isLoading := False\<rparr>)"
  by (simp add: nextTurn_def Let_def)

lemma nextTurn_player:
  "player (nextTurn s r k) = newPlayer (player s) (resourceChanges (nextTurn s r k))"
  by (simp add: nextTurn_def Let_def)


lemma placeUpdate_fields:
  "player (placeUpdate s x y t cost bonus) =
     (player s)\<lparr>p_gold := p_gold (player s) - c_gold cost,
                p_food := p_food (player s) - c_food cost,
                p_population := p_population (player s) - c_population cost
                                + (if t = house then 2 else 0)\<rparr>"
  "gamePhase (placeUpdate s x y t cost bonus) = gamePhase s"
  "gameWon (placeUpdate s x y t cost bonus) = gameWon s"
  "victoryType (placeUpdate s x y t cost bonus) = victoryType s"
  "showVictoryScreen (placeUpdate s x y t cost bonus) = showVictoryScreen s"
  by (simp_all add: placeUpdate_def Let_def)

lemma placeUpdate_achievements:
  "achievements (placeUpdate s x y t cost bonus) =
     updateAchievements (s\<lparr>grid := grid (placeUpdate s x y t cost bonus),
                           player := player (placeUpdate s x y t cost bonus),
                           territoryControlPercentage :=
                             territoryControlPercentage (placeUpdate s x y t cost bonus)\<rparr>)"
  by (simp add: placeUpdate_def Let_def)



section \<open>The player's resources\<close>

lemma placementAllowed_cost:
  "placementAllowed s x y t \<Longrightarrow>
     \<exists>cost. BUILDING_COSTS t = Some cost \<and> p_gold (player s) \<ge> c_gold cost
            \<and> p_food (player s) \<ge> c_food cost \<and> p_population (player s) \<ge> c_population cost"
  by (cases "BUILDING_COSTS t") (simp_all add: placementAllowed_def)

lemma newPlayer_clamped:
  "0 \<le> p_gold (newPlayer p f)" "1 \<le> p_population (newPlayer p f)" "0 \<le> p_food (newPlayer p f)"
  "0 \<le> p_militaryStrength (newPlayer p f)" "0 \<le> p_army (newPlayer p f)"
  by (simp_all add: newPlayer_def)

lemma inv_player_initial: "inv_player (initialState tr rr)"
  by (simp add: inv_player_def initialState_def)

lemma step_inv_player:
  assumes "inv_player s"
  shows "inv_player (step s a)"
proof (cases a)
  case (Place x y t)
  show ?thesis
  proof (cases "placementAllowed s x y t")
    case True
    then obtain cost where "BUILDING_COSTS t = Some cost" "p_gold (player s) \<ge> c_gold cost"
        "p_food (player s) \<ge> c_food cost" "p_population (player s) \<ge> c_population cost"
      using placementAllowed_cost by blast
    then show ?thesis
      using True assms by (simp add: Place step_Place_eq inv_player_def placeUpdate_fields)
  next
    case False
    then show ?thesis using assms by (simp add: Place step_Place_eq)
  qed
next
  case (NextTurn r k)
  then show ?thesis
    by (simp add: step.simps inv_player_def nextTurn_player newPlayer_clamped
        order_trans [OF _ newPlayer_clamped(2)])
next
  case (SelectCell x y)
  then show ?thesis using assms by (simp add: inv_player_def selectCell_fields)
qed (use assms in \<open>simp_all add: step.simps inv_player_def\<close>)

lemma run_inv_player: "inv_player s \<Longrightarrow> inv_player (run s as)"
  by (induction as rule: rev_induct) (simp_all add: run_snoc step_inv_player)

lemma inv_achievements_initial: "inv_achievements (initialState tr rr)"
  by (simp add: inv_achievements_def allBuildingsUnlocked_def initialState_def
      INITIAL_ACHIEVEMENTS_def initialGrid_unique)

lemma inv_achievements_same:
  "inv_achievements s \<Longrightarrow> grid s' = grid s \<Longrightarrow> achievements s' = achievements s \<Longrightarrow>
     inv_achievements s'"
  by (simp add: inv_achievements_def allBuildingsUnlocked_def)

lemma step_inv_achievements:
  assumes "inv_achievements s"
  shows "inv_achievements (step s a)"
proof (cases a)
  case (Place x y t)
  show ?thesis
  proof (cases "placementAllowed s x y t")
    case True
    show ?thesis
      unfolding Place step_Place_eq if_P [OF True]
      by (rule inv_achievements_update [OF _ _ placeUpdate_achievements])
         (use assms in \<open>simp_all add: inv_achievements_def\<close>)
  next
    case False
    then show ?thesis using assms by (simp add: Place step_Place_eq)
  qed
next
  case (NextTurn r k)
  show ?thesis
    unfolding NextTurn step.simps
    by (rule inv_achievements_update [OF _ _ nextTurn_achievements])
       (use assms in \<open>simp_all add: inv_achievements_def nextTurn_grid\<close>)
next
  case (SelectCell x y)
  then show ?thesis
    using assms by (simp add: inv_achievements_same [OF assms] selectCell_fields)
qed (use assms in \<open>simp_all add: step.simps inv_achievements_same [OF assms]\<close>)

lemma run_inv_achievements: "inv_achievements s \<Longrightarrow> inv_achievements (run s as)"
  by (induction as rule: rev_induct) (simp_all add: run_snoc step_inv_achievements)

section \<open>Seasons along a game\<close>











section \<open>The adjacency bonus\<close>

text \<open>
  Claim C3. For every position \<open>(x, y)\<close> and building type \<open>t\<close>,
  \<open>calculateAdjacencyBonus\<close> is the sum, over the cells of the grid adjacent to \<open>(x, y)\<close>
  (there are at most eight) that hold a building of the player, of the entry of
  \<open>ADJACENCY_BONUSES\<close> for \<open>t\<close> and the neighbour's type, 0 when there is no entry. After
  a placement, the income of every building of the player is the base gold production of
  its type plus this bonus, computed on the grid after the placement.
\<close>

theorem adjacency_bonus_sum:
  "finite (neighbours x y) \<and> card (neighbours x y) \<le> 8
   \<and> calculateAdjacencyBonus g x y t =
       (\<Sum>p \<in> playerNeighbours g x y. bonusFor t (cellType (cellAt g (fst p) (snd p))))
   \<and> (wf_grid (grid s) \<longrightarrow> placementAllowed s px py pt \<longrightarrow> j < 12 \<longrightarrow> i < 12 \<longrightarrow>
        building (grid (step s (Place px py pt)) ! j ! i) = Some b \<longrightarrow> owner b = player_owner \<longrightarrow>
          income b = getBaseIncome (btype b)
            + calculateAdjacencyBonus (grid (step s (Place px py pt))) (int i) (int j) (btype b))"
proof -
  have "neighbours x y \<subseteq> shift x y ` (set offsets - {(0, 0)})"
    using distance_1_set [of x y] by (auto simp: neighbours_def)
  then have "finite (neighbours x y)"
    by (rule finite_subset) simp
  then show ?thesis
    using placed_income [of s px py pt j i b]
    by (simp add: card_neighbours calculateAdjacencyBonus_neighbours)
qed

theorem adjacency_bonus_sum_witness:
  "wf_grid (grid exampleState) \<and> placementAllowed exampleState 5 5 house
   \<and> building (grid (step exampleState (Place 5 5 house)) ! 6 ! 6)
       = Some \<lparr>btype = castle, level = 1, owner = player_owner, income = 30, adjacencyBonuses = []\<rparr>
   \<and> (30::int) = getBaseIncome castle
        + calculateAdjacencyBonus (grid (step exampleState (Place 5 5 house))) 6 6 castle"
proof -
  have a: "placementAllowed exampleState 5 5 house"
    by code_simp
  have w: "wf_grid (grid exampleState)"
    by (simp add: exampleState_def initialState_def initialGrid_wf)
  have b: "building (grid (step exampleState (Place 5 5 house)) ! 6 ! 6)
       = Some \<lparr>btype = castle, level = 1, owner = player_owner, income = 30, adjacencyBonuses = []\<rparr>"
    by code_simp
  show ?thesis
    using adjacency_bonus_sum [of 0 0 "[]" castle exampleState 5 5 house 6 6
        "\<lparr>btype = castle, level = 1, owner = player_owner, income = 30, adjacencyBonuses = []\<rparr>"]
      a w b
    by simp
qed

section \<open>Placement is gated\<close>

text \<open>
  Claim C2. \<open>placeBuilding\<close> adds a building of the player, of the given type, at
  \<open>(x, y)\<close> when the placement is allowed: the cell is revealed, holds no building, is not
  water, its terrain is valid for the type, for a type other than the castle the distance
  to the nearest building of the player exists and lies within the distances of the rules,
  and the player's gold, food and population cover the cost. When one of these conditions
  fails, the call returns without an update or throws, and the game state is unchanged.
\<close>

theorem placeBuilding_gated:
  "(placementAllowed s x y t \<longrightarrow>
      placeBuilding s x y t
        = Inr (placeUpdate s x y t (the (BUILDING_COSTS t)) (calculateAdjacencyBonus (grid s) x y t)))
   \<and> (wf_grid (grid s) \<longrightarrow> placementAllowed s x y t \<longrightarrow>
        (case building (cellAt (grid (step s (Place x y t))) x y) of
           None \<Rightarrow> False
         | Some b \<Rightarrow> btype b = t \<and> owner b = player_owner))
   \<and> (\<not> placementAllowed s x y t \<longrightarrow>
        (placeBuilding s x y t = Inr s \<or> placeBuilding s x y t = Inl TypeError)
        \<and> step s (Place x y t) = s)"
proof -
  have "wf_grid (grid s) \<Longrightarrow> placementAllowed s x y t \<Longrightarrow>
        (case building (cellAt (grid (step s (Place x y t))) x y) of
           None \<Rightarrow> False
         | Some b \<Rightarrow> btype b = t \<and> owner b = player_owner)"
    using placed_building [of s x y t] by (auto simp: wf_grid_iff)
  then show ?thesis
    by (auto simp: placeBuilding_eq step_Place_eq placementAllowed_def)
qed

theorem placeBuilding_gated_witness:
  "placementAllowed exampleState 5 5 house
   \<and> wf_grid (grid exampleState)
   \<and> (case building (cellAt (grid (step exampleState (Place 5 5 house))) 5 5) of
        None \<Rightarrow> False
      | Some b \<Rightarrow> btype b = house \<and> owner b = player_owner)
   \<and> \<not> placementAllowed exampleState 5 5 barracks
   \<and> step exampleState (Place 5 5 barracks) = exampleState"
proof -
  have a: "placementAllowed exampleState 5 5 house"
    by code_simp
  have w: "wf_grid (grid exampleState)"
    by (simp add: exampleState_def initialState_def initialGrid_wf)
  have n: "\<not> placementAllowed exampleState 5 5 barracks"
    by code_simp
  show ?thesis
    using placeBuilding_gated [of exampleState 5 5 house]
      placeBuilding_gated [of exampleState 5 5 barracks] a w n
    by simp
qed

section \<open>Revealed cells stay revealed\<close>

text \<open>
  Claim C10. No action sets a revealed cell back to unrevealed; a successful placement at
  \<open>(x, y)\<close> reveals every cell of the grid within Chebyshev distance 1 of \<open>(x, y)\<close>; and
  in every state of a game the territory percentage is \<open>round(100 * revealed / 144)\<close> and
  does not decrease along any sequence of actions.
\<close>

theorem reveal_monotone:
  "(wf_grid (grid s) \<longrightarrow> j < 12 \<longrightarrow> i < 12 \<longrightarrow> isRevealed (grid s ! j ! i) \<longrightarrow>
      isRevealed (grid (step s a) ! j ! i))
   \<and> (wf_grid (grid s) \<longrightarrow> placementAllowed s x y t \<longrightarrow> j < 12 \<longrightarrow> i < 12 \<longrightarrow>
        \<bar>int i - x\<bar> \<le> 1 \<and> \<bar>int j - y\<bar> \<le> 1 \<longrightarrow>
          isRevealed (grid (step s (Place x y t)) ! j ! i))
   \<and> wf_grid (grid (run (initialState terrainRand resourceRand) as))
   \<and> territoryControlPercentage (run (initialState terrainRand resourceRand) as)
       = js_round (100 * of_nat (revealedCells (grid (run (initialState terrainRand resourceRand) as)))
                   / 144)
   \<and> territoryControlPercentage (run (initialState terrainRand resourceRand) as)
       \<le> territoryControlPercentage (run (initialState terrainRand resourceRand) (as @ bs))"
proof -
  let ?s0 = "initialState terrainRand resourceRand"
  have inv: "inv_territory (run ?s0 as)"
    by (rule run_inv_territory [OF inv_territory_initial])
  have mono: "territoryControlPercentage (run ?s0 as)
       \<le> territoryControlPercentage (run ?s0 (as @ bs))"
    using run_territory_mono [OF inv, of bs] by (simp add: run_append)
  have a: "wf_grid (grid s) \<Longrightarrow> j < 12 \<Longrightarrow> i < 12 \<Longrightarrow> isRevealed (grid s ! j ! i) \<Longrightarrow>
      isRevealed (grid (step s a) ! j ! i)"
    using step_revealed [of s j i a] by (simp add: wf_grid_iff)
  have b: "wf_grid (grid s) \<Longrightarrow> placementAllowed s x y t \<Longrightarrow> j < 12 \<Longrightarrow> i < 12 \<Longrightarrow>
        \<bar>int i - x\<bar> \<le> 1 \<and> \<bar>int j - y\<bar> \<le> 1 \<Longrightarrow>
          isRevealed (grid (step s (Place x y t)) ! j ! i)"
    using placed_isRevealed [of s x y t j i] by (simp add: wf_grid_iff)
  show ?thesis
    using inv mono a b
    by (simp add: inv_territory_def calculateTerritoryControl_eq)
qed

theorem reveal_monotone_witness:
  "wf_grid (grid exampleState) \<and> placementAllowed exampleState 5 5 house
   \<and> isRevealed (grid exampleState ! 6 ! 6)
   \<and> isRevealed (grid (step exampleState (Place 5 5 house)) ! 6 ! 6)
   \<and> \<not> isRevealed (grid exampleState ! 4 ! 4)
   \<and> isRevealed (grid (step exampleState (Place 5 5 house)) ! 4 ! 4)"
proof -
  have a: "placementAllowed exampleState 5 5 house"
    by code_simp
  have w: "wf_grid (grid exampleState)"
    by (simp add: exampleState_def initialState_def initialGrid_wf)
  have r: "isRevealed (grid exampleState ! 6 ! 6)" "\<not> isRevealed (grid exampleState ! 4 ! 4)"
    by code_simp+
  show ?thesis
    using reveal_monotone [of exampleState 6 6 "Place 5 5 house" 5 5 house "\<lambda>x y. 0" "\<lambda>x y. 0" "[]" "[]"]
      reveal_monotone [of exampleState 4 4 "Place 5 5 house" 5 5 house "\<lambda>x y. 0" "\<lambda>x y. 0" "[]" "[]"]
      a w r
    by simp
qed

section \<open>Resources are never negative\<close>

text \<open>
  Claim C9. After every sequence of actions from a first state the player's gold, food,
  population, military strength and army are not negative. A turn advance clamps gold,
  food, military strength and army at 0 and population at 1; a placement deducts the cost
  of the type, which the affordability check has found covered (a house then adds 2 to
  the population).
\<close>

theorem resources_non_negative:
  "player (initialState terrainRand resourceRand)
     = \<lparr>p_gold = 300, p_population = 10, p_army = 5, p_food = 50, p_militaryStrength = 5\<rparr>
   \<and> 0 \<le> p_gold (player (run (initialState terrainRand resourceRand) as))
   \<and> 0 \<le> p_food (player (run (initialState terrainRand resourceRand) as))
   \<and> 0 \<le> p_population (player (run (initialState terrainRand resourceRand) as))
   \<and> 0 \<le> p_militaryStrength (player (run (initialState terrainRand resourceRand) as))
   \<and> 0 \<le> p_army (player (run (initialState terrainRand resourceRand) as))
   \<and> 0 \<le> p_gold (player (nextTurn s randomChance pick))
   \<and> 0 \<le> p_food (player (nextTurn s randomChance pick))
   \<and> 0 \<le> p_militaryStrength (player (nextTurn s randomChance pick))
   \<and> 0 \<le> p_army (player (nextTurn s randomChance pick))
   \<and> 1 \<le> p_population (player (nextTurn s randomChance pick))
   \<and> (placementAllowed s x y t \<longrightarrow>
        (case BUILDING_COSTS t of
           None \<Rightarrow> False
         | Some cost \<Rightarrow>
             c_gold cost \<le> p_gold (player s) \<and> c_food cost \<le> p_food (player s)
             \<and> c_population cost \<le> p_population (player s)
             \<and> player (step s (Place x y t)) =
                 (player s)\<lparr>p_gold := p_gold (player s) - c_gold cost,
                            p_food := p_food (player s) - c_food cost,
                            p_population := p_population (player s) - c_population cost
                                            + (if t = house then 2 else 0)\<rparr>))"
proof -
  have "inv_player (run (initialState terrainRand resourceRand) as)"
    by (rule run_inv_player [OF inv_player_initial])
  moreover have "placementAllowed s x y t \<Longrightarrow>
        (case BUILDING_COSTS t of
           None \<Rightarrow> False
         | Some cost \<Rightarrow>
             c_gold cost \<le> p_gold (player s) \<and> c_food cost \<le> p_food (player s)
             \<and> c_population cost \<le> p_population (player s)
             \<and> player (step s (Place x y t)) =
                 (player s)\<lparr>p_gold := p_gold (player s) - c_gold cost,
                            p_food := p_food (player s) - c_food cost,
                            p_population := p_population (player s) - c_population cost
                                            + (if t = house then 2 else 0)\<rparr>)"
    using placementAllowed_cost [of s x y t]
    by (auto simp: step_Place_eq placeUpdate_fields)
  ultimately show ?thesis
    by (simp add: inv_player_def nextTurn_player newPlayer_clamped)
       (simp add: initialState_def)
qed

theorem resources_non_negative_witness:
  "placementAllowed exampleState 5 5 house
   \<and> player (step exampleState (Place 5 5 house))
       = (player exampleState)\<lparr>p_gold := p_gold (player exampleState) - 50,
                                p_food := p_food (player exampleState) - 5,
                                p_population := p_population (player exampleState) - 0 + 2\<rparr>"
proof -
  have a: "placementAllowed exampleState 5 5 house"
    by code_simp
  show ?thesis
    using resources_non_negative [of "\<lambda>x y. 0" "\<lambda>x y. 0" "[]" exampleState 0 pick0 5 5 house] a
    by simp
qed

section \<open>The victory conditions\<close>

text \<open>
  Claim C5. \<open>checkVictoryConditions\<close> reports a win exactly when the territory
  percentage is at least 60, or the player has at least 5000 gold, 200 population, 500
  food and 100 military strength, or the achievement \<open>all_buildings\<close> is unlocked; the type
  reported is territory, resources or buildings, the first of these that holds. In every
  state of a game the achievement is unlocked exactly when each of the seven building
  types stands on the grid as a building of the player.
\<close>

theorem victory_conditions:
  "fst (checkVictoryConditions s) =
     (territoryControlPercentage s \<ge> 60
      \<or> (p_gold (player s) \<ge> 5000 \<and> p_population (player s) \<ge> 200
          \<and> p_food (player s) \<ge> 500 \<and> p_militaryStrength (player s) \<ge> 100)
      \<or> allBuildingsUnlocked s)
   \<and> snd (checkVictoryConditions s) =
       (if territoryControlPercentage s \<ge> 60 then Some territory
        else if p_gold (player s) \<ge> 5000 \<and> p_population (player s) \<ge> 200
                \<and> p_food (player s) \<ge> 500 \<and> p_militaryStrength (player s) \<ge> 100
        then Some resources_victory
        else if allBuildingsUnlocked s then Some buildings
        else None)
   \<and> allBuildingsUnlocked (run (initialState terrainRand resourceRand) as) =
       (\<forall>t. \<exists>c \<in> set (playerCells (grid (run (initialState terrainRand resourceRand) as))).
              cellType c = t)"
proof -
  have "inv_achievements (run (initialState terrainRand resourceRand) as)"
    by (rule run_inv_achievements [OF inv_achievements_initial])
  then show ?thesis
    by (simp add: checkVictoryConditions_eq resourceGoal_def inv_achievements_def uniqueBuildings_7)
qed

section \<open>A game that reaches the resource thresholds\<close>















section \<open>When achievements and victory are evaluated\<close>




section \<open>Seasons\<close>


section \<open>The turn update and its random draws\<close>

lemma generateRandomEvents_quiet:
  "23/100 \<le> randomChance \<Longrightarrow>
     generateRandomEvents n season randomChance pick = generateRandomEvents n season (1/2) pick0"
  by (simp add: generateRandomEvents_def)

text \<open>
  Claim C7, as the spec states it, fails: from one and the same state, a turn advance
  that draws 0.2 (bandits attack) leaves the player 278 gold, and one that draws 0.5 (no
  random event) leaves 328.
\<close>

theorem nextTurn_depends_on_draw:
  "p_gold (player (nextTurn exampleState (1/5) pick0)) = 278
   \<and> p_gold (player (nextTurn exampleState (1/2) pick0)) = 328"
  by code_simp

text \<open>
  Claim C7, amended. The turn update is a function of the state and of the two values it
  draws from \<open>Math.random()\<close>; whenever the first draw is at least 0.23, so that no random
  event is generated, the resulting state (with its resource totals and turn events) does
  not depend on the draws at all.
\<close>

theorem nextTurn_deterministic_without_event:
  "23/100 \<le> randomChance \<Longrightarrow> 23/100 \<le> randomChance' \<Longrightarrow>
     nextTurn s randomChance pick = nextTurn s randomChance' pick'"
  by (simp add: nextTurn_def generateRandomEvents_quiet [of randomChance]
        generateRandomEvents_quiet [of randomChance'])

theorem nextTurn_deterministic_without_event_witness:
  "nextTurn exampleState (1/2) pick0 = nextTurn exampleState (3/4) pick2"
  using nextTurn_deterministic_without_event [of "1/2" "3/4" exampleState pick0 pick2]
  by simp

end
